theory Spec2Isabelle
  imports Complex_Main
begin

section \<open>SelectionManager (src/script.js, class SelectionManager)\<close>

text \<open>
  JavaScript numbers are modelled as \<^typ>\<open>real\<close> (no rounding, no NaN); array lengths
  and indices as \<^typ>\<open>nat\<close>. A selection object is a record; the array
  \<^verbatim>\<open>this.selections\<close> is a list in array order; \<^verbatim>\<open>null\<close> is \<open>None\<close>.
\<close>

record selection =
  sel_id :: string
  sel_x :: real
  sel_y :: real
  sel_width :: real
  sel_height :: real
  sel_active :: bool
  sel_created :: string

record SelectionManager =
  selections :: "selection list"
  activeSelectionId :: "string option"

text \<open>The argument of \<^verbatim>\<open>updateSelection\<close>: any subset of the fields of a selection.
  The drag handler passes \<^verbatim>\<open>{x, y}\<close>, the resize handler a spread copy of a whole
  selection.\<close>

record bounds =
  b_id :: "string option"
  b_x :: "real option"
  b_y :: "real option"
  b_width :: "real option"
  b_height :: "real option"
  b_active :: "bool option"
  b_created :: "string option"

datatype error = TooSmall

text \<open>Decimal rendering of an array index inside a template literal.\<close>

definition digit_char :: "nat \<Rightarrow> char" where
  "digit_char d =
     (if d = 0 then CHR ''0'' else if d = 1 then CHR ''1'' else if d = 2 then CHR ''2''
      else if d = 3 then CHR ''3'' else if d = 4 then CHR ''4'' else if d = 5 then CHR ''5''
      else if d = 6 then CHR ''6'' else if d = 7 then CHR ''7'' else if d = 8 then CHR ''8''
      else CHR ''9'')"

fun string_of_nat :: "nat \<Rightarrow> string" where
  "string_of_nat n =
     (if n < 10 then [digit_char n]
      else string_of_nat (n div 10) @ [digit_char (n mod 10)])"

declare string_of_nat.simps [simp del]

text \<open>\<^verbatim>\<open>`selection_${n}`\<close>\<close>

definition selection_id :: "nat \<Rightarrow> string" where
  "selection_id n = ''selection_'' @ string_of_nat n"

text \<open>\<^verbatim>\<open>new SelectionManager()\<close>\<close>

definition new_SelectionManager :: SelectionManager where
  "new_SelectionManager = \<lparr>selections = [], activeSelectionId = None\<rparr>"

text \<open>\<^verbatim>\<open>arr.find(p)\<close> followed by a mutation of the object found: the first element
  that satisfies \<open>p\<close> is changed in place, the others are untouched.\<close>

fun update_first :: "('a \<Rightarrow> bool) \<Rightarrow> ('a \<Rightarrow> 'a) \<Rightarrow> 'a list \<Rightarrow> 'a list" where
  "update_first p f [] = []"
| "update_first p f (s # ss) = (if p s then f s # ss else s # update_first p f ss)"

text \<open>\<^verbatim>\<open>arr.findIndex(p)\<close>, with \<open>None\<close> for \<open>-1\<close>.\<close>

fun findIndex :: "('a \<Rightarrow> bool) \<Rightarrow> 'a list \<Rightarrow> nat option" where
  "findIndex p [] = None"
| "findIndex p (s # ss) =
     (if p s then Some 0 else (case findIndex p ss of None \<Rightarrow> None | Some k \<Rightarrow> Some (Suc k)))"

definition setActiveSelection :: "string \<Rightarrow> SelectionManager \<Rightarrow> SelectionManager" where
  "setActiveSelection i sm =
     (let ss = map (\<lambda>s. s\<lparr>sel_active := False\<rparr>) (selections sm)
      in case find (\<lambda>s. sel_id s = i) ss of
           None \<Rightarrow> sm\<lparr>selections := ss\<rparr>
         | Some _ \<Rightarrow>
             sm\<lparr>selections := update_first (\<lambda>s. sel_id s = i) (\<lambda>s. s\<lparr>sel_active := True\<rparr>) ss,
                activeSelectionId := Some i\<rparr>)"

text \<open>\<^verbatim>\<open>createSelection\<close>: the timestamp \<^verbatim>\<open>new Date().toISOString()\<close> is the
  parameter \<open>now\<close>. The \<^verbatim>\<open>throw\<close> is \<open>Inl TooSmall\<close>; it happens before the push, so
  the store is the one before the call. The object returned is the one pushed, read after
  \<^verbatim>\<open>setActiveSelection\<close> has run over the array.\<close>

definition createSelection ::
  "real \<Rightarrow> real \<Rightarrow> real \<Rightarrow> real \<Rightarrow> string \<Rightarrow> SelectionManager
     \<Rightarrow> error + (selection \<times> SelectionManager)" where
  "createSelection startX startY endX endY now sm =
     (let newId = length (selections sm) + 1;
          selection = \<lparr>sel_id = selection_id newId,
                       sel_x = min startX endX,
                       sel_y = min startY endY,
                       sel_width = \<bar>endX - startX\<bar>,
                       sel_height = \<bar>endY - startY\<bar>,
                       sel_active = False,
                       sel_created = now\<rparr>
      in if sel_width selection < 1 \<or> sel_height selection < 1 then Inl TooSmall
         else (let sm' = setActiveSelection (sel_id selection)
                           (sm\<lparr>selections := selections sm @ [selection]\<rparr>)
               in Inr (last (selections sm'), sm')))"

text \<open>\<^verbatim>\<open>Object.assign(selection, bounds)\<close>\<close>

definition assign :: "selection \<Rightarrow> bounds \<Rightarrow> selection" where
  "assign s b =
     \<lparr>sel_id = (case b_id b of None \<Rightarrow> sel_id s | Some v \<Rightarrow> v),
      sel_x = (case b_x b of None \<Rightarrow> sel_x s | Some v \<Rightarrow> v),
      sel_y = (case b_y b of None \<Rightarrow> sel_y s | Some v \<Rightarrow> v),
      sel_width = (case b_width b of None \<Rightarrow> sel_width s | Some v \<Rightarrow> v),
      sel_height = (case b_height b of None \<Rightarrow> sel_height s | Some v \<Rightarrow> v),
      sel_active = (case b_active b of None \<Rightarrow> sel_active s | Some v \<Rightarrow> v),
      sel_created = (case b_created b of None \<Rightarrow> sel_created s | Some v \<Rightarrow> v)\<rparr>"

definition updateSelection :: "string \<Rightarrow> bounds \<Rightarrow> SelectionManager \<Rightarrow> SelectionManager" where
  "updateSelection i b sm =
     sm\<lparr>selections := update_first (\<lambda>s. sel_id s = i) (\<lambda>s. assign s b) (selections sm)\<rparr>"

text \<open>The \<^verbatim>\<open>forEach\<close> of \<^verbatim>\<open>renumberSelections\<close>, from array index \<open>k\<close> on, threading
  \<^verbatim>\<open>this.activeSelectionId\<close> through the iterations.\<close>

fun renumber_from :: "nat \<Rightarrow> selection list \<Rightarrow> string option \<Rightarrow> selection list \<times> string option" where
  "renumber_from k [] a = ([], a)"
| "renumber_from k (s # ss) a =
     (let newId = selection_id (k + 1);
          a' = (if sel_id s \<noteq> newId \<and> a = Some (sel_id s) then Some newId else a);
          s' = (if sel_id s \<noteq> newId then s\<lparr>sel_id := newId\<rparr> else s);
          r = renumber_from (k + 1) ss a'
      in (s' # fst r, snd r))"

definition renumberSelections :: "SelectionManager \<Rightarrow> SelectionManager" where
  "renumberSelections sm =
     (let r = renumber_from 0 (selections sm) (activeSelectionId sm)
      in sm\<lparr>selections := fst r, activeSelectionId := snd r\<rparr>)"

definition deleteSelection :: "string \<Rightarrow> SelectionManager \<Rightarrow> SelectionManager" where
  "deleteSelection i sm =
     (case findIndex (\<lambda>s. sel_id s = i) (selections sm) of
        None \<Rightarrow> sm
      | Some index \<Rightarrow>
          renumberSelections
            (sm\<lparr>selections := take index (selections sm) @ drop (Suc index) (selections sm),
                activeSelectionId :=
                  (if activeSelectionId sm = Some i then None else activeSelectionId sm)\<rparr>))"

definition getActiveSelection :: "SelectionManager \<Rightarrow> selection option" where
  "getActiveSelection sm = find sel_active (selections sm)"

definition getAllSelections :: "SelectionManager \<Rightarrow> selection list" where
  "getAllSelections sm = selections sm"

definition clearActiveSelection :: "SelectionManager \<Rightarrow> SelectionManager" where
  "clearActiveSelection sm =
     sm\<lparr>selections := map (\<lambda>s. s\<lparr>sel_active := False\<rparr>) (selections sm),
        activeSelectionId := None\<rparr>"

definition reset :: "SelectionManager \<Rightarrow> SelectionManager" where
  "reset sm = sm\<lparr>selections := [], activeSelectionId := None\<rparr>"

text \<open>Sequences of calls on one store. A \<^verbatim>\<open>createSelection\<close> that throws leaves the
  store as it was, and the sequence goes on from there.\<close>

datatype store_op =
    Create real real real real string
  | Update string bounds
  | Delete string
  | SetActive string
  | ClearActive
  | Reset

fun apply_op :: "store_op \<Rightarrow> SelectionManager \<Rightarrow> SelectionManager" where
  "apply_op (Create startX startY endX endY now) sm =
     (case createSelection startX startY endX endY now sm of
        Inl _ \<Rightarrow> sm
      | Inr r \<Rightarrow> snd r)"
| "apply_op (Update i b) sm = updateSelection i b sm"
| "apply_op (Delete i) sm = deleteSelection i sm"
| "apply_op (SetActive i) sm = setActiveSelection i sm"
| "apply_op ClearActive sm = clearActiveSelection sm"
| "apply_op Reset sm = reset sm"

definition run_ops :: "store_op list \<Rightarrow> SelectionManager \<Rightarrow> SelectionManager" where
  "run_ops ops sm = fold apply_op ops sm"

fun is_create_or_delete :: "store_op \<Rightarrow> bool" where
  "is_create_or_delete (Create _ _ _ _ _) = True"
| "is_create_or_delete (Delete _) = True"
| "is_create_or_delete _ = False"

fun sets_active :: "store_op \<Rightarrow> bool" where
  "sets_active (Update _ b) = (b_active b = Some True)"
| "sets_active _ = False"

text \<open>The ids \<^verbatim>\<open>selection_1\<close>, ..., \<^verbatim>\<open>selection_N\<close>, and the ids the specification
  names, \<^verbatim>\<open>"1"\<close>, ..., \<^verbatim>\<open>"N"\<close>.\<close>

definition selection_ids :: "nat \<Rightarrow> string list" where
  "selection_ids n = map selection_id [1..<Suc n]"

definition plain_ids :: "nat \<Rightarrow> string list" where
  "plain_ids n = map string_of_nat [1..<Suc n]"

section \<open>ImageManager (src/script.js, class ImageManager)\<close>

text \<open>Objects \<^verbatim>\<open>{x, y}\<close>.\<close>

record point =
  pt_x :: real
  pt_y :: real

text \<open>The decoded \<^verbatim>\<open>Image\<close>: the code reads its \<^verbatim>\<open>width\<close> and \<^verbatim>\<open>height\<close> only.\<close>

record html_image =
  img_width :: real
  img_height :: real

text \<open>The fields of the constructor; \<^verbatim>\<open>this.canvas.width\<close> and
  \<^verbatim>\<open>this.canvas.height\<close> are \<open>canvas_width\<close> and \<open>canvas_height\<close>, and
  \<^verbatim>\<open>this.image\<close> is \<open>image_el\<close>.\<close>

record ImageManager =
  canvas_width :: real
  canvas_height :: real
  image_el :: "html_image option"
  scale :: real
  offsetX :: real
  offsetY :: real
  originalWidth :: real
  originalHeight :: real
  displayWidth :: real
  displayHeight :: real
  minScale :: real
  maxScale :: real

definition new_ImageManager :: "real \<Rightarrow> real \<Rightarrow> ImageManager" where
  "new_ImageManager cw ch =
     \<lparr>canvas_width = cw, canvas_height = ch, image_el = None, scale = 1,
      offsetX = 0, offsetY = 0, originalWidth = 0, originalHeight = 0,
      displayWidth = 0, displayHeight = 0, minScale = 1 / 10, maxScale = 5\<rparr>"

definition hasImage :: "ImageManager \<Rightarrow> bool" where
  "hasImage st = (image_el st \<noteq> None)"

definition resetImageState :: "ImageManager \<Rightarrow> ImageManager" where
  "resetImageState st =
     st\<lparr>image_el := None, scale := 1, offsetX := 0, offsetY := 0,
        originalWidth := 0, originalHeight := 0, displayWidth := 0, displayHeight := 0\<rparr>"

definition fitImageToCanvas :: "ImageManager \<Rightarrow> ImageManager" where
  "fitImageToCanvas st =
     (if image_el st = None then st
      else
        (let canvasWidth = canvas_width st;
             canvasHeight = canvas_height st;
             margin = 20;
             availableWidth = canvasWidth - margin * 2;
             availableHeight = canvasHeight - margin * 2;
             scaleX = availableWidth / originalWidth st;
             scaleY = availableHeight / originalHeight st;
             s = max (min (min scaleX scaleY) 1) (minScale st);
             dw = originalWidth st * s;
             dh = originalHeight st * s
         in st\<lparr>scale := s, displayWidth := dw, displayHeight := dh,
               offsetX := (canvasWidth - dw) / 2, offsetY := (canvasHeight - dh) / 2\<rparr>))"

text \<open>The assignments of \<^verbatim>\<open>img.onload\<close> in \<^verbatim>\<open>loadImage\<close>, for an image that has
  passed its size check (neither dimension is 0), on the state that
  \<^verbatim>\<open>resetImageState\<close> left.\<close>

definition onload :: "html_image \<Rightarrow> ImageManager \<Rightarrow> ImageManager" where
  "onload img st =
     fitImageToCanvas
       ((resetImageState st)\<lparr>image_el := Some img, originalWidth := img_width img,
                              originalHeight := img_height img\<rparr>)"

definition setScaleKeepCentered :: "real \<Rightarrow> ImageManager \<Rightarrow> ImageManager" where
  "setScaleKeepCentered newScale st =
     (if image_el st = None then st
      else
        (let newScale' = max (minScale st) (min newScale (maxScale st));
             oldScale = scale st
         in if \<bar>newScale' - oldScale\<bar> < 1 / 1000 then st
            else
              (let dw = originalWidth st * newScale';
                   dh = originalHeight st * newScale'
               in st\<lparr>scale := newScale', displayWidth := dw, displayHeight := dh,
                     offsetX := (canvas_width st - dw) / 2,
                     offsetY := (canvas_height st - dh) / 2\<rparr>)))"

definition zoomIn :: "ImageManager \<Rightarrow> ImageManager" where
  "zoomIn st = setScaleKeepCentered (min (scale st * (12 / 10)) (maxScale st)) st"

definition zoomOut :: "ImageManager \<Rightarrow> ImageManager" where
  "zoomOut st = setScaleKeepCentered (max (scale st / (12 / 10)) (minScale st)) st"

definition constrainImagePosition :: "ImageManager \<Rightarrow> ImageManager" where
  "constrainImagePosition st =
     (if image_el st = None then st
      else
        (let canvasWidth = canvas_width st;
             canvasHeight = canvas_height st;
             ox =
               (if displayWidth st \<le> canvasWidth then
                  (let centerX = (canvasWidth - displayWidth st) / 2;
                       maxDeviation = 100
                   in max (centerX - maxDeviation) (min (offsetX st) (centerX + maxDeviation)))
                else
                  (let minVisibleWidth = min 200 (displayWidth st * (3 / 10));
                       maxOffsetX = minVisibleWidth - displayWidth st;
                       minOffsetX = canvasWidth - minVisibleWidth
                   in max maxOffsetX (min (offsetX st) minOffsetX)));
             oy =
               (if displayHeight st \<le> canvasHeight then
                  (let centerY = (canvasHeight - displayHeight st) / 2;
                       maxDeviation = 100
                   in max (centerY - maxDeviation) (min (offsetY st) (centerY + maxDeviation)))
                else
                  (let minVisibleHeight = min 200 (displayHeight st * (3 / 10));
                       maxOffsetY = minVisibleHeight - displayHeight st;
                       minOffsetY = canvasHeight - minVisibleHeight
                   in max maxOffsetY (min (offsetY st) minOffsetY)))
         in st\<lparr>offsetX := ox, offsetY := oy\<rparr>))"

text \<open>\<^verbatim>\<open>setScale\<close> from the line that saves the current image centre to the line
  before the call of \<^verbatim>\<open>constrainImagePosition\<close>: \<open>newScale\<close> is already clamped
  and the zoom centre already chosen.\<close>

definition setScale_reposition :: "real \<Rightarrow> real \<Rightarrow> real \<Rightarrow> ImageManager \<Rightarrow> ImageManager" where
  "setScale_reposition newScale centerX centerY st =
     (let oldScale = scale st;
          currentImageCenterX = offsetX st + displayWidth st / 2;
          currentImageCenterY = offsetY st + displayHeight st / 2;
          offsetFromImageCenterX = centerX - currentImageCenterX;
          offsetFromImageCenterY = centerY - currentImageCenterY;
          scaleRatio = newScale / oldScale;
          dw = originalWidth st * newScale;
          dh = originalHeight st * newScale;
          newImageCenterX = centerX - offsetFromImageCenterX * scaleRatio;
          newImageCenterY = centerY - offsetFromImageCenterY * scaleRatio
      in st\<lparr>scale := newScale, displayWidth := dw, displayHeight := dh,
            offsetX := newImageCenterX - dw / 2,
            offsetY := newImageCenterY - dh / 2\<rparr>)"

text \<open>The zoom centre of \<^verbatim>\<open>setScale\<close>: the canvas centre when either argument is
  \<^verbatim>\<open>null\<close>.\<close>

definition zoom_center :: "real option \<Rightarrow> real option \<Rightarrow> ImageManager \<Rightarrow> point" where
  "zoom_center centerX centerY st =
     (case (centerX, centerY) of
        (Some cx, Some cy) \<Rightarrow> \<lparr>pt_x = cx, pt_y = cy\<rparr>
      | _ \<Rightarrow> \<lparr>pt_x = canvas_width st / 2, pt_y = canvas_height st / 2\<rparr>)"

definition clamp_scale :: "real \<Rightarrow> ImageManager \<Rightarrow> real" where
  "clamp_scale newScale st = max (minScale st) (min newScale (maxScale st))"

definition setScale :: "real \<Rightarrow> real option \<Rightarrow> real option \<Rightarrow> ImageManager \<Rightarrow> ImageManager" where
  "setScale newScale centerX centerY st =
     (if image_el st = None then st
      else
        (let newScale' = clamp_scale newScale st;
             oldScale = scale st
         in if \<bar>newScale' - oldScale\<bar> < 1 / 1000 then st
            else
              (let c = zoom_center centerX centerY st
               in constrainImagePosition
                    (setScale_reposition newScale' (pt_x c) (pt_y c) st))))"

definition canvasToImage :: "ImageManager \<Rightarrow> real \<Rightarrow> real \<Rightarrow> point" where
  "canvasToImage st canvasX canvasY =
     \<lparr>pt_x = (canvasX - offsetX st) / scale st, pt_y = (canvasY - offsetY st) / scale st\<rparr>"

definition imageToCanvas :: "ImageManager \<Rightarrow> real \<Rightarrow> real \<Rightarrow> point" where
  "imageToCanvas st imageX imageY =
     \<lparr>pt_x = imageX * scale st + offsetX st, pt_y = imageY * scale st + offsetY st\<rparr>"

text \<open>What every method of the class keeps once an image is loaded: positive zoom bounds
  around the scale, and display sizes that are the original sizes times the scale.\<close>

definition viewport_ok :: "ImageManager \<Rightarrow> bool" where
  "viewport_ok st =
     (0 < minScale st \<and> minScale st \<le> scale st \<and> scale st \<le> maxScale st \<and>
      displayWidth st = originalWidth st * scale st \<and>
      displayHeight st = originalHeight st * scale st)"

section \<open>EventHandler (src/script.js, class EventHandler)\<close>

datatype mode = Select | Pan

text \<open>The keys of the \<^verbatim>\<open>handles\<close> object of \<^verbatim>\<open>getResizeHandle\<close>, with their names as
  strings: the size floor of \<^verbatim>\<open>resizeSelection\<close> tests
  \<^verbatim>\<open>this.activeHandle.includes('w')\<close> and \<^verbatim>\<open>includes('n')\<close>.\<close>

datatype handle = Hnw | Hne | Hsw | Hse | Hn | Hs | Hw | He

fun handle_name :: "handle \<Rightarrow> string" where
  "handle_name Hnw = ''nw''"
| "handle_name Hne = ''ne''"
| "handle_name Hsw = ''sw''"
| "handle_name Hse = ''se''"
| "handle_name Hn = ''n''"
| "handle_name Hs = ''s''"
| "handle_name Hw = ''w''"
| "handle_name He = ''e''"

definition name_includes :: "handle \<Rightarrow> char \<Rightarrow> bool" where
  "name_includes h c = (c \<in> set (handle_name h))"

text \<open>\<open>currentSelection\<close> is a reference to a selection object of the store; the handlers
  read its \<^verbatim>\<open>id\<close> and test it for \<^verbatim>\<open>null\<close>, so it is kept as the id that object
  carries. \<open>originalSelection\<close> is a spread copy, a value.\<close>

record EventHandler =
  eh_mode :: mode
  isDrawing :: bool
  isDragging :: bool
  isResizing :: bool
  isPanning :: bool
  dragStartPos :: point
  activeHandle :: "handle option"
  currentSelection :: "string option"
  originalSelection :: "selection option"

definition new_EventHandler :: EventHandler where
  "new_EventHandler =
     \<lparr>eh_mode = Select, isDrawing = False, isDragging = False, isResizing = False,
      isPanning = False, dragStartPos = \<lparr>pt_x = 0, pt_y = 0\<rparr>, activeHandle = None,
      currentSelection = None, originalSelection = None\<rparr>"

text \<open>The \<^verbatim>\<open>switch\<close> of \<^verbatim>\<open>resizeSelection\<close> on a copy of the pre-gesture selection.\<close>

fun apply_handle :: "handle \<Rightarrow> real \<Rightarrow> real \<Rightarrow> selection \<Rightarrow> selection" where
  "apply_handle Hnw deltaX deltaY b =
     b\<lparr>sel_x := sel_x b + deltaX, sel_y := sel_y b + deltaY,
       sel_width := sel_width b - deltaX, sel_height := sel_height b - deltaY\<rparr>"
| "apply_handle Hne deltaX deltaY b =
     b\<lparr>sel_y := sel_y b + deltaY,
       sel_width := sel_width b + deltaX, sel_height := sel_height b - deltaY\<rparr>"
| "apply_handle Hsw deltaX deltaY b =
     b\<lparr>sel_x := sel_x b + deltaX,
       sel_width := sel_width b - deltaX, sel_height := sel_height b + deltaY\<rparr>"
| "apply_handle Hse deltaX deltaY b =
     b\<lparr>sel_width := sel_width b + deltaX, sel_height := sel_height b + deltaY\<rparr>"
| "apply_handle Hn deltaX deltaY b =
     b\<lparr>sel_y := sel_y b + deltaY, sel_height := sel_height b - deltaY\<rparr>"
| "apply_handle Hs deltaX deltaY b = b\<lparr>sel_height := sel_height b + deltaY\<rparr>"
| "apply_handle Hw deltaX deltaY b =
     b\<lparr>sel_x := sel_x b + deltaX, sel_width := sel_width b - deltaX\<rparr>"
| "apply_handle He deltaX deltaY b = b\<lparr>sel_width := sel_width b + deltaX\<rparr>"

definition minSize :: real where
  "minSize = 10"

text \<open>The two \<^verbatim>\<open>if\<close> blocks under "ensure the minimum size".\<close>

definition enforce_minSize :: "handle \<Rightarrow> selection \<Rightarrow> selection \<Rightarrow> selection" where
  "enforce_minSize h orig b =
     (let b1 =
            (if sel_width b < minSize then
               (if name_includes h CHR ''w''
                then b\<lparr>sel_x := sel_x orig + sel_width orig - minSize\<rparr>
                else b)\<lparr>sel_width := minSize\<rparr>
             else b)
      in if sel_height b1 < minSize then
           (if name_includes h CHR ''n''
            then b1\<lparr>sel_y := sel_y orig + sel_height orig - minSize\<rparr>
            else b1)\<lparr>sel_height := minSize\<rparr>
         else b1)"

text \<open>The four assignments under "do not exceed the image bounds", in their order.\<close>

definition clamp_to_image :: "real \<Rightarrow> real \<Rightarrow> selection \<Rightarrow> selection" where
  "clamp_to_image imgW imgH b =
     (let b1 = b\<lparr>sel_x := max 0 (sel_x b)\<rparr>;
          b2 = b1\<lparr>sel_y := max 0 (sel_y b1)\<rparr>;
          b3 = b2\<lparr>sel_width := min (sel_width b2) (imgW - sel_x b2)\<rparr>
      in b3\<lparr>sel_height := min (sel_height b3) (imgH - sel_y b3)\<rparr>)"

text \<open>\<^verbatim>\<open>newBounds\<close> of \<^verbatim>\<open>resizeSelection\<close> as a function of the pre-gesture
  selection, the handle, the image-space delta of the gesture and the image size.\<close>

definition resizeBounds :: "handle \<Rightarrow> selection \<Rightarrow> real \<Rightarrow> real \<Rightarrow> real \<Rightarrow> real \<Rightarrow> selection" where
  "resizeBounds h orig deltaX deltaY imgW imgH =
     clamp_to_image imgW imgH (enforce_minSize h orig (apply_handle h deltaX deltaY orig))"

text \<open>A whole selection object as the argument of \<^verbatim>\<open>updateSelection\<close>.\<close>

definition all_fields :: "selection \<Rightarrow> bounds" where
  "all_fields s =
     \<lparr>b_id = Some (sel_id s), b_x = Some (sel_x s), b_y = Some (sel_y s),
      b_width = Some (sel_width s), b_height = Some (sel_height s),
      b_active = Some (sel_active s), b_created = Some (sel_created s)\<rparr>"

definition resizeSelection ::
  "real \<Rightarrow> real \<Rightarrow> EventHandler \<Rightarrow> ImageManager \<Rightarrow> SelectionManager \<Rightarrow> SelectionManager" where
  "resizeSelection mouseX mouseY eh im sm =
     (case (currentSelection eh, activeHandle eh, originalSelection eh) of
        (Some cur, Some h, Some orig) \<Rightarrow>
          (let mouseImageCoords = canvasToImage im mouseX mouseY;
               startImageCoords =
                 canvasToImage im (pt_x (dragStartPos eh)) (pt_y (dragStartPos eh));
               deltaX = pt_x mouseImageCoords - pt_x startImageCoords;
               deltaY = pt_y mouseImageCoords - pt_y startImageCoords;
               newBounds =
                 resizeBounds h orig deltaX deltaY (originalWidth im) (originalHeight im)
           in updateSelection cur (all_fields newBounds) sm)
      | _ \<Rightarrow> sm)"

text \<open>\<^verbatim>\<open>handleMouseUp\<close> at the canvas point \<open>(x, y)\<close>, without the cursor, status and
  render calls. An exception of \<^verbatim>\<open>createSelection\<close> is not caught here: it leaves the
  handler, which is \<open>Inl\<close>.\<close>

definition handleMouseUp ::
  "real \<Rightarrow> real \<Rightarrow> string \<Rightarrow> EventHandler \<Rightarrow> ImageManager \<Rightarrow> SelectionManager
     \<Rightarrow> error + (EventHandler \<times> SelectionManager)" where
  "handleMouseUp x y now eh im sm =
     (if isPanning eh then Inr (eh\<lparr>isPanning := False\<rparr>, sm)
      else if \<not> hasImage im then Inr (eh, sm)
      else if isDrawing eh then
        (let imageCoords = canvasToImage im x y;
             startX = min (pt_x (dragStartPos eh)) (pt_x imageCoords);
             startY = min (pt_y (dragStartPos eh)) (pt_y imageCoords);
             endX = max (pt_x (dragStartPos eh)) (pt_x imageCoords);
             endY = max (pt_y (dragStartPos eh)) (pt_y imageCoords);
             width = endX - startX;
             height = endY - startY;
             finished = eh\<lparr>isDrawing := False, currentSelection := None\<rparr>
         in if width > 10 \<and> height > 10 then
              (let clampedStartX = max 0 (min startX (originalWidth im));
                   clampedStartY = max 0 (min startY (originalHeight im));
                   clampedEndX = max 0 (min endX (originalWidth im));
                   clampedEndY = max 0 (min endY (originalHeight im));
                   clampedWidth = clampedEndX - clampedStartX;
                   clampedHeight = clampedEndY - clampedStartY
               in if clampedWidth > 5 \<and> clampedHeight > 5 then
                    (case createSelection clampedStartX clampedStartY clampedEndX clampedEndY
                            now sm of
                       Inl e \<Rightarrow> Inl e
                     | Inr r \<Rightarrow> Inr (finished, snd r))
                  else Inr (finished, sm))
            else Inr (finished, sm))
      else if isResizing eh then
        Inr (eh\<lparr>isResizing := False, activeHandle := None, originalSelection := None,
                currentSelection := None\<rparr>, sm)
      else if isDragging eh then
        Inr (eh\<lparr>isDragging := False, currentSelection := None\<rparr>, sm)
      else Inr (eh\<lparr>currentSelection := None\<rparr>, sm))"

section \<open>Pointer-down, selection switching and hit tests (class EventHandler)\<close>

text \<open>\<^verbatim>\<open>ImageManager.isPointInImage\<close>, on the bounds \<^verbatim>\<open>getImageBounds\<close> returns.\<close>

definition isPointInImage :: "ImageManager \<Rightarrow> real \<Rightarrow> real \<Rightarrow> bool" where
  "isPointInImage im x y =
     (x \<ge> offsetX im \<and> x \<le> offsetX im + displayWidth im \<and>
      y \<ge> offsetY im \<and> y \<le> offsetY im + displayHeight im)"

text \<open>The \<^verbatim>\<open>handles\<close> object of \<^verbatim>\<open>getResizeHandle\<close>, in the order of its keys.\<close>

definition handle_positions :: "ImageManager \<Rightarrow> selection \<Rightarrow> (handle \<times> point) list" where
  "handle_positions im selection =
     (let canvasCoords = imageToCanvas im (sel_x selection) (sel_y selection);
          canvasWidth = sel_width selection * scale im;
          canvasHeight = sel_height selection * scale im;
          cx = pt_x canvasCoords;
          cy = pt_y canvasCoords
      in [(Hnw, \<lparr>pt_x = cx, pt_y = cy\<rparr>),
          (Hne, \<lparr>pt_x = cx + canvasWidth, pt_y = cy\<rparr>),
          (Hsw, \<lparr>pt_x = cx, pt_y = cy + canvasHeight\<rparr>),
          (Hse, \<lparr>pt_x = cx + canvasWidth, pt_y = cy + canvasHeight\<rparr>),
          (Hn, \<lparr>pt_x = cx + canvasWidth / 2, pt_y = cy\<rparr>),
          (Hs, \<lparr>pt_x = cx + canvasWidth / 2, pt_y = cy + canvasHeight\<rparr>),
          (Hw, \<lparr>pt_x = cx, pt_y = cy + canvasHeight / 2\<rparr>),
          (He, \<lparr>pt_x = cx + canvasWidth, pt_y = cy + canvasHeight / 2\<rparr>)])"

definition getResizeHandle :: "ImageManager \<Rightarrow> real \<Rightarrow> real \<Rightarrow> selection \<Rightarrow> handle option" where
  "getResizeHandle im mouseX mouseY selection =
     (let handleSize = 8;
          tolerance = handleSize / 2
      in map_option fst
           (find (\<lambda>hp. \<bar>mouseX - pt_x (snd hp)\<bar> \<le> tolerance \<and>
                         \<bar>mouseY - pt_y (snd hp)\<bar> \<le> tolerance)
              (handle_positions im selection)))"

text \<open>\<^verbatim>\<open>findSelectionAtPoint\<close>: the loop runs from the last selection to the first.\<close>

definition findSelectionAtPoint ::
  "ImageManager \<Rightarrow> SelectionManager \<Rightarrow> real \<Rightarrow> real \<Rightarrow> selection option" where
  "findSelectionAtPoint im sm canvasX canvasY =
     find (\<lambda>selection.
             (let canvasCoords = imageToCanvas im (sel_x selection) (sel_y selection);
                  canvasWidth = sel_width selection * scale im;
                  canvasHeight = sel_height selection * scale im
              in canvasX \<ge> pt_x canvasCoords \<and> canvasX \<le> pt_x canvasCoords + canvasWidth \<and>
                 canvasY \<ge> pt_y canvasCoords \<and> canvasY \<le> pt_y canvasCoords + canvasHeight))
          (rev (getAllSelections sm))"

text \<open>\<^verbatim>\<open>handleMouseDown\<close> at the canvas point \<open>(x, y)\<close>, without the cursor, status and
  render calls.\<close>

definition handleMouseDown ::
  "real \<Rightarrow> real \<Rightarrow> EventHandler \<Rightarrow> ImageManager \<Rightarrow> SelectionManager
     \<Rightarrow> EventHandler \<times> SelectionManager" where
  "handleMouseDown x y eh im sm =
     (if \<not> hasImage im then (eh, sm)
      else
        (let eh1 = eh\<lparr>dragStartPos := \<lparr>pt_x = x, pt_y = y\<rparr>\<rparr>
         in if eh_mode eh1 = Pan then (eh1\<lparr>isPanning := True\<rparr>, sm)
            else if \<not> isPointInImage im x y then (eh1, sm)
            else
              (let imageCoords = canvasToImage im x y;
                   activeSelection = getActiveSelection sm;
                   grabbed =
                     (case activeSelection of
                        None \<Rightarrow> None
                      | Some a \<Rightarrow> map_option (\<lambda>h. (h, a)) (getResizeHandle im x y a))
               in case grabbed of
                    Some (h, a) \<Rightarrow>
                      (eh1\<lparr>isResizing := True, activeHandle := Some h,
                           currentSelection := Some (sel_id a),
                           originalSelection := Some a\<rparr>, sm)
                  | None \<Rightarrow>
                      (case findSelectionAtPoint im sm x y of
                         Some clickedSelection \<Rightarrow>
                           (eh1\<lparr>isDragging := True,
                                currentSelection := Some (sel_id clickedSelection)\<rparr>,
                            setActiveSelection (sel_id clickedSelection) sm)
                       | None \<Rightarrow>
                           (eh1\<lparr>isDrawing := True, dragStartPos := imageCoords\<rparr>,
                            clearActiveSelection sm)))))"

text \<open>\<^verbatim>\<open>switchToNextSelection(reverse)\<close>, the Tab key. \<^verbatim>\<open>currentIndex\<close> is \<open>None\<close> for
  \<open>-1\<close>, where the code goes to the last index backwards and to index 0 forwards.\<close>

definition switchToNextSelection :: "bool \<Rightarrow> SelectionManager \<Rightarrow> SelectionManager" where
  "switchToNextSelection reverse sm =
     (let ss = getAllSelections sm
      in if length ss = 0 then sm
         else
           (let nextIndex =
                  (case getActiveSelection sm of
                     None \<Rightarrow> 0
                   | Some activeSelection \<Rightarrow>
                       (case findIndex (\<lambda>s. sel_id s = sel_id activeSelection) ss of
                          None \<Rightarrow> (if reverse then length ss - 1 else 0)
                        | Some currentIndex \<Rightarrow>
                            (if reverse
                             then (if currentIndex > 0 then currentIndex - 1 else length ss - 1)
                             else (if currentIndex < length ss - 1 then currentIndex + 1 else 0))))
            in setActiveSelection (sel_id (ss ! nextIndex)) sm))"

section \<open>Selection creation with the rounding of the size computation explicit\<close>

text \<open>
  The size test of \<^verbatim>\<open>createSelection\<close> reads the floating-point numbers that
  \<^verbatim>\<open>Math.abs(endX - startX)\<close> and \<^verbatim>\<open>Math.abs(endY - startY)\<close> produced, and
  \<^verbatim>\<open>handleMouseUp\<close> tests the differences it computed itself. \<open>createSelection_fl\<close> and
  \<open>handleMouseUp_fl\<close> are these two methods with the rounding of every such subtraction
  explicit: \<open>fl\<close> maps the exact difference to the number the subtraction returns
  (\<^verbatim>\<open>Math.min\<close>, \<^verbatim>\<open>Math.max\<close> and \<^verbatim>\<open>Math.abs\<close> do not round). \<open>createSelection_fl\<close> also
  returns the store on its exceptional exit. With \<open>fl\<close> the identity they are
  \<open>createSelection\<close> and \<open>handleMouseUp\<close>.
\<close>

definition createSelection_fl ::
  "(real \<Rightarrow> real) \<Rightarrow> real \<Rightarrow> real \<Rightarrow> real \<Rightarrow> real \<Rightarrow> string \<Rightarrow> SelectionManager
     \<Rightarrow> (error + selection) \<times> SelectionManager" where
  "createSelection_fl fl startX startY endX endY now sm =
     (let newId = length (selections sm) + 1;
          selection = \<lparr>sel_id = selection_id newId,
                       sel_x = min startX endX,
                       sel_y = min startY endY,
                       sel_width = \<bar>fl (endX - startX)\<bar>,
                       sel_height = \<bar>fl (endY - startY)\<bar>,
                       sel_active = False,
                       sel_created = now\<rparr>
      in if sel_width selection < 1 \<or> sel_height selection < 1 then (Inl TooSmall, sm)
         else (let sm' = setActiveSelection (sel_id selection)
                           (sm\<lparr>selections := selections sm @ [selection]\<rparr>)
               in (Inr (last (selections sm')), sm')))"

definition handleMouseUp_fl ::
  "(real \<Rightarrow> real) \<Rightarrow> real \<Rightarrow> real \<Rightarrow> string \<Rightarrow> EventHandler \<Rightarrow> ImageManager
     \<Rightarrow> SelectionManager \<Rightarrow> error + (EventHandler \<times> SelectionManager)" where
  "handleMouseUp_fl fl x y now eh im sm =
     (if isPanning eh then Inr (eh\<lparr>isPanning := False\<rparr>, sm)
      else if \<not> hasImage im then Inr (eh, sm)
      else if isDrawing eh then
        (let imageCoords = canvasToImage im x y;
             startX = min (pt_x (dragStartPos eh)) (pt_x imageCoords);
             startY = min (pt_y (dragStartPos eh)) (pt_y imageCoords);
             endX = max (pt_x (dragStartPos eh)) (pt_x imageCoords);
             endY = max (pt_y (dragStartPos eh)) (pt_y imageCoords);
             width = fl (endX - startX);
             height = fl (endY - startY);
             finished = eh\<lparr>isDrawing := False, currentSelection := None\<rparr>
         in if width > 10 \<and> height > 10 then
              (let clampedStartX = max 0 (min startX (originalWidth im));
                   clampedStartY = max 0 (min startY (originalHeight im));
                   clampedEndX = max 0 (min endX (originalWidth im));
                   clampedEndY = max 0 (min endY (originalHeight im));
                   clampedWidth = fl (clampedEndX - clampedStartX);
                   clampedHeight = fl (clampedEndY - clampedStartY)
               in if clampedWidth > 5 \<and> clampedHeight > 5 then
                    (case createSelection_fl fl clampedStartX clampedStartY clampedEndX
                            clampedEndY now sm of
                       (Inl e, _) \<Rightarrow> Inl e
                     | (Inr _, sm') \<Rightarrow> Inr (finished, sm'))
                  else Inr (finished, sm))
            else Inr (finished, sm))
      else if isResizing eh then
        Inr (eh\<lparr>isResizing := False, activeHandle := None, originalSelection := None,
                currentSelection := None\<rparr>, sm)
      else if isDragging eh then
        Inr (eh\<lparr>isDragging := False, currentSelection := None\<rparr>, sm)
      else Inr (eh\<lparr>currentSelection := None\<rparr>, sm))"

section \<open>The position-constraint policy\<close>





section \<open>Invariants and example states\<close>

definition ids_contiguous :: "SelectionManager \<Rightarrow> bool" where
  "ids_contiguous sm = (map sel_id (selections sm) = selection_ids (length (selections sm)))"

definition single_active :: "SelectionManager \<Rightarrow> bool" where
  "single_active sm = (length (filter sel_active (selections sm)) \<le> 1)"

text \<open>The store of the numbering scenario: three selections drawn from \<open>(10,10)\<close> to
  \<open>(50,50)\<close>, from \<open>(60,60)\<close> to \<open>(100,100)\<close> and from \<open>(110,110)\<close> to \<open>(150,150)\<close>.\<close>

definition three :: SelectionManager where
  "three =
     run_ops [Create 10 10 50 50 ''t1'', Create 60 60 100 100 ''t2'',
              Create 110 110 150 150 ''t3''] new_SelectionManager"

text \<open>An argument of \<^verbatim>\<open>updateSelection\<close> with no field, with \<^verbatim>\<open>{x, y}\<close>, and with
  \<^verbatim>\<open>{active: true}\<close>.\<close>

definition no_fields :: bounds where
  "no_fields =
     \<lparr>b_id = None, b_x = None, b_y = None, b_width = None, b_height = None,
      b_active = None, b_created = None\<rparr>"

definition xy_fields :: "real \<Rightarrow> real \<Rightarrow> bounds" where
  "xy_fields vx vy = no_fields\<lparr>b_x := Some vx, b_y := Some vy\<rparr>"

definition active_field :: bounds where
  "active_field = no_fields\<lparr>b_active := Some True\<rparr>"

definition create_delete_ops :: "store_op list" where
  "create_delete_ops =
     [Create 10 10 50 50 ''t1'', Create 60 60 100 100 ''t2'', Delete ''selection_1'',
      Create 0 0 (1 / 2) 30 ''t3'', Create 110 110 150 150 ''t4'']"

definition mixed_ops :: "store_op list" where
  "mixed_ops =
     [Create 10 10 50 50 ''t1'', Create 60 60 100 100 ''t2'',
      Update ''selection_1'' (xy_fields 20 20), SetActive ''selection_1'',
      Delete ''selection_2'', ClearActive, SetActive ''selection_1'', Reset,
      Create 110 110 150 150 ''t3'']"

text \<open>What \<^verbatim>\<open>zoomIn\<close> and \<^verbatim>\<open>zoomOut\<close> start from: an image is loaded, the zoom bounds
  are those of the constructor, and the scale lies between them.\<close>

definition zoom_ready :: "ImageManager \<Rightarrow> bool" where
  "zoom_ready st =
     (image_el st \<noteq> None \<and> minScale st = 1 / 10 \<and> maxScale st = 5 \<and>
      minScale st \<le> scale st \<and> scale st \<le> maxScale st)"

text \<open>A 4000 x 3000 image loaded into an 800 x 600 canvas; a 10000 x 10000 image loaded
  into a 1045 x 1045 canvas, which fits at scale 0.1005; and the first one after
  \<^verbatim>\<open>setScaleKeepCentered(4.9995)\<close>.\<close>

definition loaded :: ImageManager where
  "loaded = onload \<lparr>img_width = 4000, img_height = 3000\<rparr> (new_ImageManager 800 600)"

definition near_min :: ImageManager where
  "near_min = onload \<lparr>img_width = 10000, img_height = 10000\<rparr> (new_ImageManager 1045 1045)"

definition near_max :: ImageManager where
  "near_max = setScaleKeepCentered (9999 / 2000) loaded"

text \<open>A 400 x 300 image in an 800 x 600 canvas: it fits at scale 1 with offset
  \<open>(200, 150)\<close>. A draw gesture that started at the image point \<open>(392, 100)\<close> (canvas
  point \<open>(592, 250)\<close>) and is released at the canvas point \<open>(604, 270)\<close>, right of the
  image, commits the selection \<open>narrow\<close>, 8 wide, at the right border. Then its \<^verbatim>\<open>e\<close>
  handle, at the canvas point \<open>(600, 260)\<close>, is grabbed.\<close>

definition fit400 :: ImageManager where
  "fit400 = onload \<lparr>img_width = 400, img_height = 300\<rparr> (new_ImageManager 800 600)"

definition drawing_at_edge :: EventHandler where
  "drawing_at_edge =
     new_EventHandler\<lparr>isDrawing := True, dragStartPos := \<lparr>pt_x = 392, pt_y = 100\<rparr>\<rparr>"

definition narrow :: selection where
  "narrow =
     \<lparr>sel_id = ''selection_1'', sel_x = 392, sel_y = 100, sel_width = 8, sel_height = 20,
      sel_active = True, sel_created = ''t1''\<rparr>"

definition narrow_store :: SelectionManager where
  "narrow_store =
     (case handleMouseUp 604 270 ''t1'' drawing_at_edge fit400 new_SelectionManager of
        Inl e \<Rightarrow> new_SelectionManager
      | Inr r \<Rightarrow> snd r)"

definition resizing_east :: EventHandler where
  "resizing_east =
     new_EventHandler\<lparr>isResizing := True, dragStartPos := \<lparr>pt_x = 600, pt_y = 260\<rparr>,
       activeHandle := Some He, currentSelection := Some ''selection_1'',
       originalSelection := Some narrow\<rparr>"

text \<open>The third selection of \<open>three\<close> as it is when its \<^verbatim>\<open>se\<close> handle is grabbed, and the
  handler state of that resize gesture in the 400 x 300 image (the handle is at the canvas
  point \<open>(350, 300)\<close>).\<close>

definition third :: selection where
  "third =
     \<lparr>sel_id = ''selection_3'', sel_x = 110, sel_y = 110, sel_width = 40, sel_height = 40,
      sel_active = True, sel_created = ''t3''\<rparr>"

definition resizing_third :: EventHandler where
  "resizing_third =
     new_EventHandler\<lparr>isResizing := True, dragStartPos := \<lparr>pt_x = 350, pt_y = 300\<rparr>,
       activeHandle := Some Hse, currentSelection := Some ''selection_3'',
       originalSelection := Some third\<rparr>"

text \<open>Along one axis, the rectangle of floor size at the pinned edge lies inside the image:
  \<open>pos\<close> and \<open>extent\<close> are the pre-gesture position and size on that axis, \<open>limit\<close> the
  image size; the far edge \<open>pos + extent\<close> is the pinned one when \<open>far_pinned\<close> holds, the
  near edge \<open>pos\<close> otherwise.\<close>

definition floor_fits :: "bool \<Rightarrow> real \<Rightarrow> real \<Rightarrow> real \<Rightarrow> bool" where
  "floor_fits far_pinned pos extent limit =
     (if far_pinned then 0 \<le> pos + extent - minSize \<and> pos + extent \<le> limit
      else 0 \<le> pos \<and> pos + minSize \<le> limit)"

text \<open>A 100 x 100 selection at \<open>(50, 60)\<close>.\<close>

definition square100 :: selection where
  "square100 =
     \<lparr>sel_id = ''selection_1'', sel_x = 50, sel_y = 60, sel_width = 100, sel_height = 100,
      sel_active = True, sel_created = ''t1''\<rparr>"

section \<open>Lemmas on the selection store\<close>

lemmas store_eval =
  run_ops_def createSelection_def setActiveSelection_def deleteSelection_def
  updateSelection_def assign_def clearActiveSelection_def reset_def
  renumberSelections_def getAllSelections_def getActiveSelection_def
  new_SelectionManager_def selection_id_def selection_ids_def plain_ids_def
  string_of_nat.simps digit_char_def Let_def
  no_fields_def xy_fields_def active_field_def

lemma three_eval:
  "three =
     \<lparr>selections =
        [\<lparr>sel_id = ''selection_1'', sel_x = 10, sel_y = 10, sel_width = 40, sel_height = 40,
          sel_active = False, sel_created = ''t1''\<rparr>,
         \<lparr>sel_id = ''selection_2'', sel_x = 60, sel_y = 60, sel_width = 40, sel_height = 40,
          sel_active = False, sel_created = ''t2''\<rparr>,
         \<lparr>sel_id = ''selection_3'', sel_x = 110, sel_y = 110, sel_width = 40, sel_height = 40,
          sel_active = True, sel_created = ''t3''\<rparr>],
      activeSelectionId = Some ''selection_3''\<rparr>"
  by (simp add: three_def store_eval)

lemma update_first_length: "length (update_first p f ss) = length ss"
  by (induction ss) auto

lemma update_first_map_same:
  "(\<And>s. g (f s) = g s) \<Longrightarrow> map g (update_first p f ss) = map g ss"
  by (induction ss) auto

lemma renumber_from_ids:
  "map sel_id (fst (renumber_from k ss a)) = map selection_id [Suc k..<Suc k + length ss]"
proof (induction ss arbitrary: k a)
  case Nil
  then show ?case by simp
next
  case (Cons s ss)
  have "[Suc k..<Suc k + length (s # ss)] = Suc k # [Suc (Suc k)..<Suc (Suc k) + length ss]"
    by (simp add: upt_rec)
  then show ?case using Cons.IH by (simp add: Let_def)
qed

lemma renumber_from_length: "length (fst (renumber_from k ss a)) = length ss"
  by (induction ss arbitrary: k a) (simp_all add: Let_def)

lemma renumber_from_count:
  "length (filter sel_active (fst (renumber_from k ss a))) = length (filter sel_active ss)"
  by (induction ss arbitrary: k a) (simp_all add: Let_def)

lemma setActiveSelection_ids:
  "map sel_id (selections (setActiveSelection i sm)) = map sel_id (selections sm)"
  by (simp add: setActiveSelection_def Let_def update_first_map_same comp_def
      split: option.splits)

lemma setActiveSelection_length:
  "length (selections (setActiveSelection i sm)) = length (selections sm)"
  by (simp add: setActiveSelection_def Let_def update_first_length split: option.splits)

lemma deleteSelection_ids:
  "findIndex (\<lambda>s. sel_id s = i) (selections sm) = Some k \<Longrightarrow>
   map sel_id (selections (deleteSelection i sm))
     = selection_ids (length (selections (deleteSelection i sm)))"
  by (simp add: deleteSelection_def renumberSelections_def Let_def renumber_from_ids
      renumber_from_length selection_ids_def)

lemma ids_contiguous_create:
  assumes "ids_contiguous sm"
  shows "ids_contiguous (apply_op (Create a b c d t) sm)"
proof (cases "createSelection a b c d t sm")
  case (Inl e)
  then show ?thesis using assms by simp
next
  case (Inr r)
  then have r: "snd r = setActiveSelection (selection_id (length (selections sm) + 1))
      (sm\<lparr>selections := selections sm @
        [\<lparr>sel_id = selection_id (length (selections sm) + 1), sel_x = min a c, sel_y = min b d,
          sel_width = \<bar>c - a\<bar>, sel_height = \<bar>d - b\<bar>, sel_active = False, sel_created = t\<rparr>]\<rparr>)"
    by (auto simp: createSelection_def Let_def split: if_splits)
  show ?thesis
    using assms unfolding ids_contiguous_def
    by (simp add: Inr r setActiveSelection_ids setActiveSelection_length selection_ids_def)
qed

lemma ids_contiguous_delete:
  assumes "ids_contiguous sm"
  shows "ids_contiguous (apply_op (Delete i) sm)"
proof (cases "findIndex (\<lambda>s. sel_id s = i) (selections sm)")
  case None
  then show ?thesis using assms by (simp add: deleteSelection_def)
next
  case (Some k)
  then show ?thesis unfolding ids_contiguous_def by (simp add: deleteSelection_ids)
qed

lemma ids_contiguous_fold:
  "ids_contiguous sm \<Longrightarrow> list_all is_create_or_delete ops
     \<Longrightarrow> ids_contiguous (fold apply_op ops sm)"
proof (induction ops arbitrary: sm)
  case Nil
  then show ?case by simp
next
  case (Cons op ops)
  from Cons.prems(2) have cd: "is_create_or_delete op"
    and rest: "list_all is_create_or_delete ops"
    by simp_all
  have "ids_contiguous (apply_op op sm)"
    using cd Cons.prems(1)
    by (cases op)
      (simp_all only: ids_contiguous_create ids_contiguous_delete is_create_or_delete.simps)
  then show ?case using Cons.IH rest by simp
qed

lemma list_all_take: "list_all p xs \<Longrightarrow> list_all p (take k xs)"
  by (auto simp: list_all_iff dest: in_set_takeD)

lemma deactivate_all_none:
  "filter sel_active (map (\<lambda>s. s\<lparr>sel_active := False\<rparr>) ss) = []"
  by (induction ss) simp_all

lemma update_first_one_active:
  "filter sel_active ss = [] \<Longrightarrow> length (filter sel_active (update_first p f ss)) \<le> 1"
  by (induction ss) (auto split: if_splits)

lemma update_first_count:
  "(\<And>s. sel_active (f s) \<Longrightarrow> sel_active s) \<Longrightarrow>
   length (filter sel_active (update_first p f ss)) \<le> length (filter sel_active ss)"
  by (induction ss) auto

lemma remove_at_count:
  "length (filter q (take k xs @ drop (Suc k) xs)) \<le> length (filter q xs)"
proof (cases "k < length xs")
  case True
  then have "xs = take k xs @ xs ! k # drop (Suc k) xs"
    by (simp add: id_take_nth_drop)
  then have "length (filter q xs) = length (filter q (take k xs @ xs ! k # drop (Suc k) xs))"
    by simp
  then show ?thesis by simp
next
  case False
  then show ?thesis by simp
qed

lemma single_active_setActive: "single_active (setActiveSelection i sm)"
proof -
  let ?ss = "map (\<lambda>s. s\<lparr>sel_active := False\<rparr>) (selections sm)"
  have "length (filter sel_active (update_first p f ?ss)) \<le> 1" for p f
    by (rule update_first_one_active) (rule deactivate_all_none)
  then show ?thesis
    by (simp add: single_active_def setActiveSelection_def Let_def deactivate_all_none
        del: One_nat_def split: option.splits)
qed

lemma single_active_create:
  "single_active sm \<Longrightarrow> single_active (apply_op (Create a b c d t) sm)"
  by (auto simp: createSelection_def Let_def single_active_setActive
      split: sum.splits if_splits)

lemma assign_active:
  "b_active b \<noteq> Some True \<Longrightarrow> sel_active (assign s b) \<Longrightarrow> sel_active s"
  by (cases "b_active b") (auto simp: assign_def)

lemma single_active_update:
  assumes "single_active sm" "b_active b \<noteq> Some True"
  shows "single_active (updateSelection i b sm)"
proof -
  have "length (filter sel_active
          (update_first (\<lambda>s. sel_id s = i) (\<lambda>s. assign s b) (selections sm)))
          \<le> length (filter sel_active (selections sm))"
    using assms(2) by (intro update_first_count) (rule assign_active)
  then show ?thesis using assms(1) by (simp add: single_active_def updateSelection_def)
qed

lemma single_active_delete:
  assumes "single_active sm"
  shows "single_active (deleteSelection i sm)"
proof (cases "findIndex (\<lambda>s. sel_id s = i) (selections sm)")
  case None
  then show ?thesis using assms by (simp add: deleteSelection_def)
next
  case (Some k)
  have "length (filter sel_active (take k (selections sm) @ drop (Suc k) (selections sm))) \<le> 1"
    using remove_at_count [of sel_active k "selections sm"] assms
    by (simp add: single_active_def)
  then show ?thesis
    by (simp add: Some deleteSelection_def renumberSelections_def Let_def single_active_def
        renumber_from_count)
qed

lemma single_active_step:
  assumes "single_active sm" "\<not> sets_active op"
  shows "single_active (apply_op op sm)"
proof (cases op)
  case (Create a b c d t)
  then show ?thesis using assms(1) by (simp only: single_active_create)
next
  case (Update i b)
  then show ?thesis using assms by (simp add: single_active_update)
next
  case (Delete i)
  then show ?thesis using assms(1) by (simp add: single_active_delete)
next
  case (SetActive i)
  then show ?thesis by (simp add: single_active_setActive)
next
  case ClearActive
  then show ?thesis
    by (simp add: single_active_def clearActiveSelection_def deactivate_all_none)
next
  case Reset
  then show ?thesis by (simp add: single_active_def reset_def)
qed

lemma single_active_fold:
  "single_active sm \<Longrightarrow> \<not> list_ex sets_active ops
     \<Longrightarrow> single_active (fold apply_op ops sm)"
proof (induction ops arbitrary: sm)
  case Nil
  then show ?case by simp
next
  case (Cons op ops)
  then have "single_active (apply_op op sm)" by (simp add: single_active_step)
  then show ?case using Cons by simp
qed

lemma list_ex_take: "list_ex p (take k xs) \<Longrightarrow> list_ex p xs"
  by (auto simp: list_ex_iff dest: in_set_takeD)

section \<open>Properties of the selection store\<close>

text \<open>
  C1 (as implemented). For every sequence of \<^verbatim>\<open>createSelection\<close> and
  \<^verbatim>\<open>deleteSelection\<close> calls on a new store, after each call (that is, after every prefix
  \<open>take k ops\<close> of the sequence) the ids returned by \<^verbatim>\<open>getAllSelections\<close> are exactly
  \<^verbatim>\<open>selection_1\<close>, ..., \<^verbatim>\<open>selection_N\<close> in array order, \<open>N\<close> being the number of
  selections: a deletion renumbers the rest. The ids carry the prefix \<^verbatim>\<open>selection_\<close>;
  they are not the bare numerals \<^verbatim>\<open>"1"\<close>, ..., \<^verbatim>\<open>"N"\<close>.
\<close>

theorem C1_ids_contiguous:
  assumes "list_all is_create_or_delete ops"
  shows "map sel_id (getAllSelections (run_ops (take k ops) new_SelectionManager))
           = selection_ids (length (getAllSelections (run_ops (take k ops) new_SelectionManager)))"
proof -
  have "ids_contiguous new_SelectionManager"
    by (simp add: ids_contiguous_def new_SelectionManager_def selection_ids_def)
  then have "ids_contiguous (fold apply_op (take k ops) new_SelectionManager)"
    using assms by (simp add: ids_contiguous_fold list_all_take)
  then show ?thesis by (simp add: ids_contiguous_def run_ops_def getAllSelections_def)
qed

text \<open>Two creations, a deletion, a rejected creation and one more creation: the ids are
  \<^verbatim>\<open>selection_1\<close>, \<^verbatim>\<open>selection_2\<close>.\<close>

theorem C1_ids_contiguous_witness:
  "list_all is_create_or_delete create_delete_ops \<and>
   map sel_id (getAllSelections (run_ops (take 5 create_delete_ops) new_SelectionManager))
     = [''selection_1'', ''selection_2''] \<and>
   selection_ids
     (length (getAllSelections (run_ops (take 5 create_delete_ops) new_SelectionManager)))
     = [''selection_1'', ''selection_2'']"
proof -
  have h: "list_all is_create_or_delete create_delete_ops"
    by (simp add: create_delete_ops_def)
  have n: "length (getAllSelections (run_ops (take 5 create_delete_ops) new_SelectionManager)) = 2"
    by (simp add: create_delete_ops_def store_eval)
  have ids: "selection_ids 2 = [''selection_1'', ''selection_2'']"
    by (simp add: store_eval upt_rec)
  show ?thesis
    using h C1_ids_contiguous [OF h, of 5] by (simp only: n ids simp_thms)
qed

text \<open>After one creation the only id is \<^verbatim>\<open>selection_1\<close>, not \<^verbatim>\<open>"1"\<close>.\<close>

theorem C1_plain_ids_counterexample:
  "map sel_id (getAllSelections (run_ops [Create 10 10 50 50 ''t1''] new_SelectionManager))
     = [''selection_1''] \<and>
   plain_ids 1 = [''1''] \<and>
   map sel_id (getAllSelections (run_ops [Create 10 10 50 50 ''t1''] new_SelectionManager))
     \<noteq> plain_ids 1"
  by (simp add: store_eval)

text \<open>
  The calls other than \<^verbatim>\<open>updateSelection\<close> keep at most one selection active, and so
  does \<^verbatim>\<open>updateSelection\<close> when its argument does not carry \<^verbatim>\<open>active: true\<close> or when
  the selection it changes is already active. (\<^verbatim>\<open>updateSelection\<close> merges every field of
  its argument, \<^verbatim>\<open>active\<close> included, without touching the other selections.)
\<close>

lemma single_active_run:
  assumes "\<not> list_ex sets_active ops"
  shows "length (filter sel_active
           (getAllSelections (run_ops (take k ops) new_SelectionManager))) \<le> 1"
proof -
  have "single_active new_SelectionManager"
    by (simp add: single_active_def new_SelectionManager_def)
  moreover have "\<not> list_ex sets_active (take k ops)"
    using assms list_ex_take by blast
  ultimately have "single_active (fold apply_op (take k ops) new_SelectionManager)"
    by (rule single_active_fold)
  then show ?thesis by (simp add: single_active_def run_ops_def getAllSelections_def)
qed

lemma single_active_run_example:
  "\<not> list_ex sets_active mixed_ops \<and>
   length (filter sel_active
     (getAllSelections (run_ops (take 7 mixed_ops) new_SelectionManager))) \<le> 1"
proof -
  have h: "\<not> list_ex sets_active mixed_ops"
    by (simp add: mixed_ops_def store_eval)
  show ?thesis using h single_active_run [OF h, of 7] by simp
qed

lemma update_first_count_on_active:
  "(case find p ss of None \<Rightarrow> True | Some s \<Rightarrow> sel_active s) \<Longrightarrow>
   length (filter sel_active (update_first p f ss)) \<le> length (filter sel_active ss)"
  by (induction ss) auto

lemma single_active_update_on_active:
  assumes "single_active sm"
    and "case find (\<lambda>s. sel_id s = i) (selections sm) of
           None \<Rightarrow> True | Some s \<Rightarrow> sel_active s"
  shows "single_active (updateSelection i b sm)"
  using assms
    update_first_count_on_active [of "\<lambda>s. sel_id s = i" "selections sm" "\<lambda>s. assign s b"]
  by (simp add: single_active_def updateSelection_def)

text \<open>Two creations, then \<^verbatim>\<open>updateSelection('selection_1', {active: true})\<close>: both
  selections are active.\<close>

lemma update_active_two_active:
  "map sel_active (getAllSelections
     (run_ops [Create 10 10 50 50 ''t1'', Create 60 60 100 100 ''t2'',
               Update ''selection_1'' active_field] new_SelectionManager))
     = [True, True]"
  by (simp add: store_eval)

text \<open>
  C10. For every id that no selection of the store carries, \<^verbatim>\<open>setActiveSelection(id)\<close>
  deactivates every selection (no selection is active afterwards and
  \<^verbatim>\<open>getActiveSelection\<close> finds none), and \<^verbatim>\<open>activeSelectionId\<close> keeps its previous
  value.
\<close>

theorem C10_setActive_missing:
  assumes "i \<notin> sel_id ` set (selections sm)"
  shows "filter sel_active (getAllSelections (setActiveSelection i sm)) = []
       \<and> getActiveSelection (setActiveSelection i sm) = None
       \<and> activeSelectionId (setActiveSelection i sm) = activeSelectionId sm"
proof -
  let ?ss = "map (\<lambda>s. s\<lparr>sel_active := False\<rparr>) (selections sm)"
  have "find (\<lambda>s. sel_id s = i) ?ss = None"
    using assms by (auto simp: find_None_iff)
  then have eq: "setActiveSelection i sm = sm\<lparr>selections := ?ss\<rparr>"
    by (simp add: setActiveSelection_def Let_def)
  have none: "filter sel_active ?ss = []" by (rule deactivate_all_none)
  then have "find sel_active ?ss = None"
    by (simp add: find_None_iff filter_empty_conv)
  with none show ?thesis by (simp add: eq getAllSelections_def getActiveSelection_def)
qed

text \<open>On the store of three selections, where \<^verbatim>\<open>selection_3\<close> is active: asking for
  \<^verbatim>\<open>selection_9\<close> leaves no active selection and the reference \<^verbatim>\<open>selection_3\<close>.\<close>

theorem C10_setActive_missing_witness:
  "''selection_9'' \<notin> sel_id ` set (selections three) \<and>
   getActiveSelection three \<noteq> None \<and>
   filter sel_active (getAllSelections (setActiveSelection ''selection_9'' three)) = [] \<and>
   getActiveSelection (setActiveSelection ''selection_9'' three) = None \<and>
   activeSelectionId (setActiveSelection ''selection_9'' three) = Some ''selection_3''"
proof -
  have h: "''selection_9'' \<notin> sel_id ` set (selections three)"
    by (simp add: three_eval)
  have a: "getActiveSelection three \<noteq> None"
    by (simp add: three_eval getActiveSelection_def)
  have b: "activeSelectionId three = Some ''selection_3''"
    by (simp add: three_eval)
  show ?thesis using h a b C10_setActive_missing [OF h] by simp
qed

text \<open>
  C8 (as implemented). After creating three selections (ids \<^verbatim>\<open>selection_1\<close>,
  \<^verbatim>\<open>selection_2\<close>, \<^verbatim>\<open>selection_3\<close>, the third active), deleting
  \<^verbatim>\<open>selection_2\<close> leaves exactly the first and the third selection, in that order, with
  ids \<^verbatim>\<open>selection_1\<close> and \<^verbatim>\<open>selection_2\<close>; the selection that was active is still the
  active one under its new id (\<^verbatim>\<open>selection_3\<close> has become \<^verbatim>\<open>selection_2\<close>, in the object
  and in \<^verbatim>\<open>activeSelectionId\<close>); and the next creation returns id \<^verbatim>\<open>selection_3\<close>.
\<close>

theorem C8_renumber_scenario:
  "map sel_id (getAllSelections three) = [''selection_1'', ''selection_2'', ''selection_3''] \<and>
   map sel_id (filter sel_active (getAllSelections three)) = [''selection_3''] \<and>
   activeSelectionId three = Some ''selection_3'' \<and>
   getAllSelections (deleteSelection ''selection_2'' three) =
     [(getAllSelections three ! 0),
      (getAllSelections three ! 2)\<lparr>sel_id := ''selection_2''\<rparr>] \<and>
   map sel_id (getAllSelections (deleteSelection ''selection_2'' three))
     = [''selection_1'', ''selection_2''] \<and>
   getActiveSelection (deleteSelection ''selection_2'' three)
     = Some ((getAllSelections three ! 2)\<lparr>sel_id := ''selection_2''\<rparr>) \<and>
   activeSelectionId (deleteSelection ''selection_2'' three) = Some ''selection_2'' \<and>
   map_sum id (sel_id \<circ> fst)
     (createSelection 160 160 200 200 ''t4'' (deleteSelection ''selection_2'' three))
     = Inr ''selection_3''"
  by (simp add: three_eval store_eval)

text \<open>With bare numerals as ids nothing happens: the ids of the store are not
  \<^verbatim>\<open>"1"\<close>, \<^verbatim>\<open>"2"\<close>, \<^verbatim>\<open>"3"\<close>, no selection has id \<^verbatim>\<open>"2"\<close>, and
  \<^verbatim>\<open>deleteSelection("2")\<close> leaves all three selections.\<close>

theorem C8_plain_id_counterexample:
  "map sel_id (getAllSelections three) \<noteq> plain_ids 3 \<and>
   map sel_id (getAllSelections (deleteSelection ''2'' three))
     = [''selection_1'', ''selection_2'', ''selection_3'']"
  by (simp add: three_eval store_eval upt_rec)

section \<open>Exceptions of the store and of the pointer-up handler\<close>






lemma createSelection_exact:
  "createSelection startX startY endX endY now sm =
     (case createSelection_fl (\<lambda>v. v) startX startY endX endY now sm of
        (Inl e, _) \<Rightarrow> Inl e | (Inr s, sm') \<Rightarrow> Inr (s, sm'))"
  by (simp add: createSelection_def createSelection_fl_def Let_def)

lemma create_in_handler_exact:
  "(case createSelection a b c d now sm of Inl e \<Rightarrow> Inl e | Inr r \<Rightarrow> Inr (f, snd r)) =
   (case createSelection_fl (\<lambda>v. v) a b c d now sm of
      (Inl e, _) \<Rightarrow> Inl e | (Inr _, sm') \<Rightarrow> Inr (f, sm'))"
  by (simp add: createSelection_def createSelection_fl_def Let_def)

lemma handleMouseUp_exact:
  "handleMouseUp x y now eh im sm = handleMouseUp_fl (\<lambda>v. v) x y now eh im sm"
  unfolding handleMouseUp_def handleMouseUp_fl_def Let_def create_in_handler_exact ..




section \<open>Lemmas on the viewport\<close>

lemma loaded_eval:
  "loaded =
     \<lparr>canvas_width = 800, canvas_height = 600,
      image_el = Some \<lparr>img_width = 4000, img_height = 3000\<rparr>, scale = 14 / 75,
      offsetX = 80 / 3, offsetY = 20, originalWidth = 4000, originalHeight = 3000,
      displayWidth = 2240 / 3, displayHeight = 560, minScale = 1 / 10, maxScale = 5\<rparr>"
  by (simp add: loaded_def onload_def fitImageToCanvas_def resetImageState_def
      new_ImageManager_def Let_def)

lemma near_min_eval:
  "near_min =
     \<lparr>canvas_width = 1045, canvas_height = 1045,
      image_el = Some \<lparr>img_width = 10000, img_height = 10000\<rparr>, scale = 201 / 2000,
      offsetX = 20, offsetY = 20, originalWidth = 10000, originalHeight = 10000,
      displayWidth = 1005, displayHeight = 1005, minScale = 1 / 10, maxScale = 5\<rparr>"
  by (simp add: near_min_def onload_def fitImageToCanvas_def resetImageState_def
      new_ImageManager_def Let_def)

lemma near_max_eval:
  "near_max =
     \<lparr>canvas_width = 800, canvas_height = 600,
      image_el = Some \<lparr>img_width = 4000, img_height = 3000\<rparr>, scale = 9999 / 2000,
      offsetX = - 9599, offsetY = - 28797 / 4, originalWidth = 4000, originalHeight = 3000,
      displayWidth = 19998, displayHeight = 29997 / 2, minScale = 1 / 10, maxScale = 5\<rparr>"
  unfolding near_max_def loaded_eval by (simp add: setScaleKeepCentered_def Let_def)

lemma keep_centered_fields:
  "image_el (setScaleKeepCentered n st) = image_el st \<and>
   minScale (setScaleKeepCentered n st) = minScale st \<and>
   maxScale (setScaleKeepCentered n st) = maxScale st"
  by (auto simp: setScaleKeepCentered_def Let_def)

lemma keep_centered_noop:
  "\<bar>max (minScale st) (min n (maxScale st)) - scale st\<bar> < 1 / 1000 \<Longrightarrow>
   setScaleKeepCentered n st = st"
  by (auto simp: setScaleKeepCentered_def Let_def)

lemma keep_centered_scale:
  "image_el st \<noteq> None \<Longrightarrow>
   \<not> \<bar>max (minScale st) (min n (maxScale st)) - scale st\<bar> < 1 / 1000 \<Longrightarrow>
   scale (setScaleKeepCentered n st) = max (minScale st) (min n (maxScale st))"
  by (auto simp: setScaleKeepCentered_def Let_def)

lemma zoomIn_target:
  fixes s :: real
  assumes "1 / 10 \<le> s" "s \<le> 5"
  shows "max (1 / 10) (min (min (s * (12 / 10)) 5) 5) = (if s * (6 / 5) \<le> 5 then s * (6 / 5) else 5)"
  using assms by (simp add: min_def max_def)

lemma zoomIn_scale:
  assumes "zoom_ready st"
  shows "scale (zoomIn st) =
           (if scale st * (6 / 5) \<le> 5 then scale st * (6 / 5)
            else if 5 - scale st < 1 / 1000 then scale st else 5)"
proof -
  from assms have b: "1 / 10 \<le> scale st" "scale st \<le> 5" and img: "image_el st \<noteq> None"
    and m: "minScale st = 1 / 10" "maxScale st = 5"
    by (simp_all add: zoom_ready_def)
  let ?c = "if scale st * (6 / 5) \<le> 5 then scale st * (6 / 5) else 5"
  have t: "max (minScale st) (min (min (scale st * (12 / 10)) (maxScale st)) (maxScale st)) = ?c"
    unfolding m by (rule zoomIn_target [OF b])
  show ?thesis
  proof (cases "\<bar>?c - scale st\<bar> < 1 / 1000")
    case True
    then have "zoomIn st = st"
      unfolding zoomIn_def by (intro keep_centered_noop) (simp only: t)
    moreover have "\<not> scale st * (6 / 5) \<le> 5 \<and> 5 - scale st < 1 / 1000"
      using True b by (simp split: if_splits)
    ultimately show ?thesis by simp
  next
    case False
    then have "scale (zoomIn st) = ?c"
      unfolding zoomIn_def using img by (subst keep_centered_scale) (simp_all only: t not_False_eq_True)
    moreover have "scale st * (6 / 5) \<le> 5 \<or> \<not> 5 - scale st < 1 / 1000"
      using False b by (simp split: if_splits)
    ultimately show ?thesis by auto
  qed
qed

lemma zoomIn_ready: "zoom_ready st \<Longrightarrow> zoom_ready (zoomIn st)"
  using zoomIn_scale [of st] keep_centered_fields [of "min (scale st * (12 / 10)) (maxScale st)" st]
  by (simp add: zoom_ready_def zoomIn_def split: if_splits)

lemma zoomIn_settled:
  assumes "zoom_ready st" "4999 / 1000 < scale st"
  shows "zoomIn st = st"
proof -
  from assms have b: "1 / 10 \<le> scale st" "scale st \<le> 5"
    and m: "minScale st = 1 / 10" "maxScale st = 5"
    by (simp_all add: zoom_ready_def)
  have "max (minScale st) (min (min (scale st * (12 / 10)) (maxScale st)) (maxScale st)) = 5"
    unfolding m using zoomIn_target [OF b] assms(2) by simp
  then show ?thesis
    unfolding zoomIn_def using assms(2) b by (intro keep_centered_noop) simp
qed

lemma zoomIn_iterate:
  assumes "zoom_ready st"
  shows "zoom_ready ((zoomIn ^^ n) st) \<and>
         (4999 / 1000 < scale ((zoomIn ^^ n) st) \<or>
          scale ((zoomIn ^^ n) st) = scale st * (6 / 5) ^ n)"
proof (induction n)
  case 0
  then show ?case using assms by simp
next
  case (Suc n)
  let ?t = "(zoomIn ^^ n) st"
  from Suc have r: "zoom_ready ?t" by simp
  have step: "(zoomIn ^^ Suc n) st = zoomIn ?t" by simp
  show ?case
  proof (cases "4999 / 1000 < scale ?t")
    case True
    then have "zoomIn ?t = ?t" using r by (rule zoomIn_settled [rotated])
    then show ?thesis using r True by (simp only: step) simp
  next
    case False
    with Suc have eq: "scale ?t = scale st * (6 / 5) ^ n" by simp
    have e2: "scale ?t * (6 / 5) = scale st * (6 / 5) ^ Suc n" by (simp add: eq)
    have "4999 / 1000 < scale (zoomIn ?t) \<or> scale (zoomIn ?t) = scale ?t * (6 / 5)"
      using False by (simp add: zoomIn_scale [OF r])
    then have "4999 / 1000 < scale (zoomIn ?t) \<or> scale (zoomIn ?t) = scale st * (6 / 5) ^ Suc n"
      by (simp only: e2)
    then show ?thesis using zoomIn_ready [OF r] unfolding step by blast
  qed
qed

lemma pow22: "(50::real) < (6 / 5) ^ 22"
  by (simp add: power_divide)

lemma zoomIn_settles:
  assumes "zoom_ready st"
  shows "4999 / 1000 < scale ((zoomIn ^^ 22) st)"
proof (rule ccontr)
  define P :: real where "P = (6 / 5) ^ 22"
  have P: "50 < P" unfolding P_def by (rule pow22)
  assume n: "\<not> 4999 / 1000 < scale ((zoomIn ^^ 22) st)"
  with zoomIn_iterate [OF assms, of 22]
  have eq: "scale ((zoomIn ^^ 22) st) = scale st * P" unfolding P_def by blast
  have "1 / 10 \<le> scale st" using assms by (simp add: zoom_ready_def)
  then have "1 / 10 * P \<le> scale st * P" using P by (intro mult_right_mono) simp_all
  then show False using n P unfolding eq by linarith
qed

lemma zoomIn_stays:
  assumes "zoom_ready st" "22 \<le> n"
  shows "(zoomIn ^^ n) st = (zoomIn ^^ 22) st"
proof -
  have "zoom_ready ((zoomIn ^^ 22) st)" using zoomIn_iterate [OF assms(1)] by blast
  then have fixed: "zoomIn ((zoomIn ^^ 22) st) = (zoomIn ^^ 22) st"
    using zoomIn_settles [OF assms(1)] by (rule zoomIn_settled)
  have "(zoomIn ^^ k) ((zoomIn ^^ 22) st) = (zoomIn ^^ 22) st" for k
    by (induction k) (simp_all add: fixed)
  then have "(zoomIn ^^ (n - 22 + 22)) st = (zoomIn ^^ 22) st"
    by (simp only: funpow_add comp_apply)
  then show ?thesis using assms(2) by simp
qed

lemma zoomOut_target:
  fixes s :: real
  assumes "1 / 10 \<le> s" "s \<le> 5"
  shows "max (1 / 10) (min (max (s / (12 / 10)) (1 / 10)) 5)
           = (if 1 / 10 \<le> s / (6 / 5) then s / (6 / 5) else 1 / 10)"
  using assms by (simp add: min_def max_def)

lemma zoomOut_scale:
  assumes "zoom_ready st"
  shows "scale (zoomOut st) =
           (if 1 / 10 \<le> scale st / (6 / 5) then scale st / (6 / 5)
            else if scale st - 1 / 10 < 1 / 1000 then scale st else 1 / 10)"
proof -
  from assms have b: "1 / 10 \<le> scale st" "scale st \<le> 5" and img: "image_el st \<noteq> None"
    and m: "minScale st = 1 / 10" "maxScale st = 5"
    by (simp_all add: zoom_ready_def)
  define d where "d = scale st / (6 / 5)"
  have d: "6 * d = 5 * scale st" by (simp add: d_def)
  let ?c = "if 1 / 10 \<le> d then d else 1 / 10"
  have t: "max (minScale st) (min (max (scale st / (12 / 10)) (minScale st)) (maxScale st)) = ?c"
    unfolding m d_def by (rule zoomOut_target [OF b])
  have goal: "scale (zoomOut st) =
      (if 1 / 10 \<le> d then d else if scale st - 1 / 10 < 1 / 1000 then scale st else 1 / 10)"
  proof (cases "\<bar>?c - scale st\<bar> < 1 / 1000")
    case True
    then have "zoomOut st = st"
      unfolding zoomOut_def by (intro keep_centered_noop) (simp only: t)
    moreover have "\<not> 1 / 10 \<le> d \<and> scale st - 1 / 10 < 1 / 1000"
    proof (cases "1 / 10 \<le> d")
      case True
      with \<open>\<bar>?c - scale st\<bar> < 1 / 1000\<close> have "\<bar>d - scale st\<bar> < 1 / 1000" by simp
      then show ?thesis using d b by linarith
    next
      case False
      with \<open>\<bar>?c - scale st\<bar> < 1 / 1000\<close> have "\<bar>1 / 10 - scale st\<bar> < 1 / 1000" by simp
      then show ?thesis using False by linarith
    qed
    ultimately show ?thesis by simp
  next
    case False
    then have "scale (zoomOut st) = ?c"
      unfolding zoomOut_def using img
      by (subst keep_centered_scale) (simp_all only: t not_False_eq_True)
    moreover have "1 / 10 \<le> d \<or> \<not> scale st - 1 / 10 < 1 / 1000"
    proof (cases "1 / 10 \<le> d")
      case True
      then show ?thesis by simp
    next
      case F: False
      with False have "\<not> \<bar>1 / 10 - scale st\<bar> < 1 / 1000" by simp
      then show ?thesis using b by linarith
    qed
    ultimately show ?thesis by auto
  qed
  then show ?thesis unfolding d_def .
qed

lemma zoomOut_ready: "zoom_ready st \<Longrightarrow> zoom_ready (zoomOut st)"
  using zoomOut_scale [of st] keep_centered_fields [of "max (scale st / (12 / 10)) (minScale st)" st]
  by (simp add: zoom_ready_def zoomOut_def split: if_splits)

lemma zoomOut_settled:
  assumes "zoom_ready st" "scale st < 101 / 1000"
  shows "zoomOut st = st"
proof -
  from assms have b: "1 / 10 \<le> scale st" "scale st \<le> 5"
    and m: "minScale st = 1 / 10" "maxScale st = 5"
    by (simp_all add: zoom_ready_def)
  have "max (minScale st) (min (max (scale st / (12 / 10)) (minScale st)) (maxScale st)) = 1 / 10"
    unfolding m using zoomOut_target [OF b] assms(2) by simp
  then show ?thesis
    unfolding zoomOut_def using assms(2) b by (intro keep_centered_noop) simp
qed

lemma zoomOut_iterate:
  assumes "zoom_ready st"
  shows "zoom_ready ((zoomOut ^^ n) st) \<and>
         (scale ((zoomOut ^^ n) st) < 101 / 1000 \<or>
          scale ((zoomOut ^^ n) st) = scale st / (6 / 5) ^ n)"
proof (induction n)
  case 0
  then show ?case using assms by simp
next
  case (Suc n)
  let ?t = "(zoomOut ^^ n) st"
  from Suc have r: "zoom_ready ?t" by simp
  have step: "(zoomOut ^^ Suc n) st = zoomOut ?t" by simp
  show ?case
  proof (cases "scale ?t < 101 / 1000")
    case True
    then have "zoomOut ?t = ?t" using r by (rule zoomOut_settled [rotated])
    then show ?thesis using r True by (simp only: step) simp
  next
    case False
    with Suc have eq: "scale ?t = scale st / (6 / 5) ^ n" by simp
    have e2: "scale ?t / (6 / 5) = scale st / (6 / 5) ^ Suc n" by (simp add: eq)
    have "scale (zoomOut ?t) < 101 / 1000 \<or> scale (zoomOut ?t) = scale ?t / (6 / 5)"
      using False by (simp add: zoomOut_scale [OF r])
    then have "scale (zoomOut ?t) < 101 / 1000 \<or> scale (zoomOut ?t) = scale st / (6 / 5) ^ Suc n"
      by (simp only: e2)
    then show ?thesis using zoomOut_ready [OF r] unfolding step by blast
  qed
qed

lemma zoomOut_settles:
  assumes "zoom_ready st"
  shows "scale ((zoomOut ^^ 22) st) < 101 / 1000"
proof (rule ccontr)
  define P :: real where "P = (6 / 5) ^ 22"
  have P: "50 < P" unfolding P_def by (rule pow22)
  assume n: "\<not> scale ((zoomOut ^^ 22) st) < 101 / 1000"
  with zoomOut_iterate [OF assms, of 22]
  have eq: "scale ((zoomOut ^^ 22) st) = scale st / P" unfolding P_def by blast
  have "scale st \<le> 5" using assms by (simp add: zoom_ready_def)
  then have "scale st / P \<le> 5 / P" using P by (intro divide_right_mono) simp_all
  moreover have "5 / P < 1 / 10" using P by (simp add: field_simps)
  ultimately show False using n unfolding eq by linarith
qed

lemma zoomOut_stays:
  assumes "zoom_ready st" "22 \<le> n"
  shows "(zoomOut ^^ n) st = (zoomOut ^^ 22) st"
proof -
  have "zoom_ready ((zoomOut ^^ 22) st)" using zoomOut_iterate [OF assms(1)] by blast
  then have fixed: "zoomOut ((zoomOut ^^ 22) st) = (zoomOut ^^ 22) st"
    using zoomOut_settles [OF assms(1)] by (rule zoomOut_settled)
  have "(zoomOut ^^ k) ((zoomOut ^^ 22) st) = (zoomOut ^^ 22) st" for k
    by (induction k) (simp_all add: fixed)
  then have "(zoomOut ^^ (n - 22 + 22)) st = (zoomOut ^^ 22) st"
    by (simp only: funpow_add comp_apply)
  then show ?thesis using assms(2) by simp
qed

lemma clamp_scale_bounds:
  "minScale st \<le> maxScale st \<Longrightarrow>
   minScale st \<le> clamp_scale n st \<and> clamp_scale n st \<le> maxScale st"
  by (auto simp: clamp_scale_def)









lemma viewport_ok_onload:
  assumes "img_width img \<noteq> 0" "img_height img \<noteq> 0"
    and "0 < minScale st" "minScale st \<le> 1" "1 \<le> maxScale st"
  shows "viewport_ok (onload img st)"
  using assms
  by (simp add: onload_def fitImageToCanvas_def resetImageState_def viewport_ok_def Let_def)

lemma viewport_ok_constrain:
  "viewport_ok st \<Longrightarrow> viewport_ok (constrainImagePosition st)"
  by (simp add: viewport_ok_def constrainImagePosition_def Let_def)

lemma viewport_ok_reposition:
  assumes "viewport_ok st"
  shows "viewport_ok (setScale_reposition (clamp_scale n st) cx cy st)"
proof -
  from assms have "minScale st \<le> maxScale st" by (simp add: viewport_ok_def)
  then have "minScale st \<le> clamp_scale n st \<and> clamp_scale n st \<le> maxScale st"
    by (rule clamp_scale_bounds)
  then show ?thesis
    using assms by (simp add: viewport_ok_def setScale_reposition_def Let_def)
qed

lemma viewport_ok_setScale:
  assumes "viewport_ok st"
  shows "viewport_ok (setScale n centerX centerY st)"
proof (cases "image_el st = None \<or> \<bar>clamp_scale n st - scale st\<bar> < 1 / 1000")
  case True
  then show ?thesis using assms by (auto simp: setScale_def Let_def)
next
  case False
  then have "setScale n centerX centerY st =
      constrainImagePosition
        (setScale_reposition (clamp_scale n st) (pt_x (zoom_center centerX centerY st))
           (pt_y (zoom_center centerX centerY st)) st)"
    by (auto simp: setScale_def Let_def)
  then show ?thesis
    using assms by (simp add: viewport_ok_constrain viewport_ok_reposition)
qed

lemma viewport_ok_setScaleKeepCentered:
  assumes "viewport_ok st"
  shows "viewport_ok (setScaleKeepCentered n st)"
proof -
  from assms have "minScale st \<le> maxScale st" by (simp add: viewport_ok_def)
  then have "minScale st \<le> clamp_scale n st \<and> clamp_scale n st \<le> maxScale st"
    by (rule clamp_scale_bounds)
  then show ?thesis
    using assms
    by (simp add: viewport_ok_def setScaleKeepCentered_def clamp_scale_def Let_def)
qed

section \<open>Properties of the viewport\<close>

text \<open>
  C4. For every scale between \<open>minScale\<close> and \<open>maxScale\<close> (the lower bound being
  positive, as the constructor's 0.1 is), every offset and every canvas point \<open>(px, py)\<close>:
  mapping the point to image space with \<^verbatim>\<open>canvasToImage\<close> and back with
  \<^verbatim>\<open>imageToCanvas\<close> returns the point. Numbers are real numbers here, so the equality
  is exact.
\<close>

theorem C4_round_trip:
  assumes "0 < minScale st" "minScale st \<le> scale st" "scale st \<le> maxScale st"
  shows "imageToCanvas st (pt_x (canvasToImage st px py)) (pt_y (canvasToImage st px py))
           = \<lparr>pt_x = px, pt_y = py\<rparr>"
proof -
  from assms have "scale st \<noteq> 0" by simp
  then show ?thesis by (simp add: imageToCanvas_def canvasToImage_def)
qed

theorem C4_round_trip_witness:
  "0 < minScale loaded \<and> minScale loaded \<le> scale loaded \<and> scale loaded \<le> maxScale loaded \<and>
   canvasToImage loaded 100 100 = \<lparr>pt_x = 2750 / 7, pt_y = 3000 / 7\<rparr> \<and>
   imageToCanvas loaded (2750 / 7) (3000 / 7) = \<lparr>pt_x = 100, pt_y = 100\<rparr>"
proof -
  have h: "0 < minScale loaded" "minScale loaded \<le> scale loaded"
    "scale loaded \<le> maxScale loaded"
    by (simp_all add: loaded_eval)
  have p: "canvasToImage loaded 100 100 = \<lparr>pt_x = 2750 / 7, pt_y = 3000 / 7\<rparr>"
    by (simp add: loaded_eval canvasToImage_def)
  show ?thesis using h p C4_round_trip [OF h, of 100 100] by simp
qed

text \<open>
  C9 (as implemented). \<^verbatim>\<open>canvasToImage\<close> has no guard on the image: while no image is
  loaded, in the state that \<^verbatim>\<open>resetImageState\<close> leaves and in the state of the
  constructor (scale 1, offsets 0), it returns a coordinate pair, the canvas point
  itself.
\<close>

theorem C9_canvasToImage_without_image:
  "\<not> hasImage (resetImageState st) \<and>
   canvasToImage (resetImageState st) canvasX canvasY = \<lparr>pt_x = canvasX, pt_y = canvasY\<rparr> \<and>
   \<not> hasImage (new_ImageManager cw ch) \<and>
   canvasToImage (new_ImageManager cw ch) canvasX canvasY
     = \<lparr>pt_x = canvasX, pt_y = canvasY\<rparr>"
  by (simp add: hasImage_def resetImageState_def new_ImageManager_def canvasToImage_def)

text \<open>After a reset of the loaded viewport, the canvas point \<open>(30, 40)\<close> is mapped to the
  pair \<open>(30, 40)\<close>.\<close>

theorem C9_coordinate_pair_counterexample:
  "\<not> hasImage (resetImageState loaded) \<and>
   canvasToImage (resetImageState loaded) 30 40 = \<lparr>pt_x = 30, pt_y = 40\<rparr>"
  by (simp add: hasImage_def resetImageState_def canvasToImage_def)



text \<open>
  C5 (as implemented). With an image loaded, the constructor's zoom bounds (0.1 and 5) and
  a scale between them: every number \<open>n\<close> of \<^verbatim>\<open>zoomIn\<close> calls, and of \<^verbatim>\<open>zoomOut\<close> calls,
  leaves the scale between \<open>minScale\<close> and \<open>maxScale\<close>; after 22 calls of \<^verbatim>\<open>zoomIn\<close> the
  state no longer changes and its scale is above \<open>maxScale - 0.001\<close>; after 22 calls of
  \<^verbatim>\<open>zoomOut\<close> the state no longer changes and its scale is below \<open>minScale + 0.001\<close>. The
  bound itself need not be reached: a step of less than 0.001 is not taken.
\<close>

theorem C5_zoom_bounds:
  assumes "image_el st \<noteq> None" "minScale st = 1 / 10" "maxScale st = 5"
    and "minScale st \<le> scale st" "scale st \<le> maxScale st"
  shows "minScale st \<le> scale ((zoomIn ^^ n) st) \<and> scale ((zoomIn ^^ n) st) \<le> maxScale st \<and>
         minScale st \<le> scale ((zoomOut ^^ n) st) \<and> scale ((zoomOut ^^ n) st) \<le> maxScale st \<and>
         (22 \<le> n \<longrightarrow>
            (zoomIn ^^ n) st = (zoomIn ^^ 22) st \<and>
            maxScale st - 1 / 1000 < scale ((zoomIn ^^ n) st) \<and>
            (zoomOut ^^ n) st = (zoomOut ^^ 22) st \<and>
            scale ((zoomOut ^^ n) st) < minScale st + 1 / 1000)"
proof -
  from assms have r: "zoom_ready st" by (simp add: zoom_ready_def)
  have "zoom_ready ((zoomIn ^^ n) st)" using zoomIn_iterate [OF r] by blast
  then have a: "minScale st \<le> scale ((zoomIn ^^ n) st) \<and> scale ((zoomIn ^^ n) st) \<le> maxScale st"
    unfolding zoom_ready_def assms(2,3) by simp
  have "zoom_ready ((zoomOut ^^ n) st)" using zoomOut_iterate [OF r] by blast
  then have b: "minScale st \<le> scale ((zoomOut ^^ n) st) \<and> scale ((zoomOut ^^ n) st) \<le> maxScale st"
    unfolding zoom_ready_def assms(2,3) by simp
  have c: "(zoomIn ^^ n) st = (zoomIn ^^ 22) st \<and>
           maxScale st - 1 / 1000 < scale ((zoomIn ^^ n) st) \<and>
           (zoomOut ^^ n) st = (zoomOut ^^ 22) st \<and>
           scale ((zoomOut ^^ n) st) < minScale st + 1 / 1000" if "22 \<le> n"
  proof -
    have i: "(zoomIn ^^ n) st = (zoomIn ^^ 22) st" by (rule zoomIn_stays [OF r that])
    have o: "(zoomOut ^^ n) st = (zoomOut ^^ 22) st" by (rule zoomOut_stays [OF r that])
    have "maxScale st - 1 / 1000 < scale ((zoomIn ^^ 22) st)"
      using zoomIn_settles [OF r] unfolding assms(3) by simp
    moreover have "scale ((zoomOut ^^ 22) st) < minScale st + 1 / 1000"
      using zoomOut_settles [OF r] unfolding assms(2) by simp
    ultimately show ?thesis unfolding i o by simp
  qed
  from a b c show ?thesis by blast
qed

theorem C5_zoom_bounds_witness:
  "image_el loaded \<noteq> None \<and> minScale loaded = 1 / 10 \<and> maxScale loaded = 5 \<and>
   minScale loaded \<le> scale loaded \<and> scale loaded \<le> maxScale loaded \<and>
   (zoomIn ^^ 30) loaded = (zoomIn ^^ 22) loaded \<and>
   maxScale loaded - 1 / 1000 < scale ((zoomIn ^^ 30) loaded) \<and>
   scale ((zoomIn ^^ 30) loaded) \<le> maxScale loaded \<and>
   (zoomOut ^^ 30) loaded = (zoomOut ^^ 22) loaded \<and>
   minScale loaded \<le> scale ((zoomOut ^^ 30) loaded) \<and>
   scale ((zoomOut ^^ 30) loaded) < minScale loaded + 1 / 1000"
proof -
  have h: "image_el loaded \<noteq> None" "minScale loaded = 1 / 10" "maxScale loaded = 5"
    "minScale loaded \<le> scale loaded" "scale loaded \<le> maxScale loaded"
    by (simp_all add: loaded_eval)
  have le: "(22::nat) \<le> 30" by simp
  show ?thesis using h le C5_zoom_bounds [OF h, of 30] by blast
qed

text \<open>The 10000 x 10000 image fits at scale 0.1005, where \<^verbatim>\<open>zoomOut\<close> changes nothing:
  the scale stays above \<open>minScale\<close> for ever. At scale 4.9995 \<^verbatim>\<open>zoomIn\<close> changes nothing:
  the scale stays below \<open>maxScale\<close>.\<close>

theorem C5_counterexample:
  "hasImage near_min \<and> scale near_min = 201 / 2000 \<and> minScale near_min = 1 / 10 \<and>
   zoomOut near_min = near_min \<and>
   hasImage near_max \<and> scale near_max = 9999 / 2000 \<and> maxScale near_max = 5 \<and>
   zoomIn near_max = near_max"
  unfolding near_min_eval near_max_eval
  by (simp add: hasImage_def zoomIn_def zoomOut_def setScaleKeepCentered_def Let_def)

section \<open>Properties of resizing\<close>

lemma fit400_eval:
  "fit400 =
     \<lparr>canvas_width = 800, canvas_height = 600,
      image_el = Some \<lparr>img_width = 400, img_height = 300\<rparr>, scale = 1,
      offsetX = 200, offsetY = 150, originalWidth = 400, originalHeight = 300,
      displayWidth = 400, displayHeight = 300, minScale = 1 / 10, maxScale = 5\<rparr>"
  by (simp add: fit400_def onload_def fitImageToCanvas_def resetImageState_def
      new_ImageManager_def Let_def)

lemma narrow_store_eval:
  "narrow_store = \<lparr>selections = [narrow], activeSelectionId = Some ''selection_1''\<rparr>"
  unfolding narrow_store_def fit400_eval
  by (simp add: handleMouseUp_def drawing_at_edge_def new_EventHandler_def hasImage_def
      canvasToImage_def narrow_def store_eval)

lemmas resize_eval = resizeBounds_def clamp_to_image_def enforce_minSize_def Let_def
  name_includes_def minSize_def

lemma resize_width_floor:
  assumes "floor_fits (name_includes h CHR ''w'') (sel_x orig) (sel_width orig) imgW"
    and "sel_width (apply_handle h deltaX deltaY orig) < minSize"
  shows "sel_width (resizeBounds h orig deltaX deltaY imgW imgH) = minSize \<and>
         (if name_includes h CHR ''w''
          then sel_x (resizeBounds h orig deltaX deltaY imgW imgH) + minSize
                 = sel_x orig + sel_width orig
          else sel_x (resizeBounds h orig deltaX deltaY imgW imgH) = sel_x orig)"
  using assms by (cases h) (simp_all add: resize_eval floor_fits_def)

lemma resize_height_floor:
  assumes "floor_fits (name_includes h CHR ''n'') (sel_y orig) (sel_height orig) imgH"
    and "sel_height (apply_handle h deltaX deltaY orig) < minSize"
  shows "sel_height (resizeBounds h orig deltaX deltaY imgW imgH) = minSize \<and>
         (if name_includes h CHR ''n''
          then sel_y (resizeBounds h orig deltaX deltaY imgW imgH) + minSize
                 = sel_y orig + sel_height orig
          else sel_y (resizeBounds h orig deltaX deltaY imgW imgH) = sel_y orig)"
  using assms by (cases h) (simp_all add: resize_eval floor_fits_def)

lemma resize_se_100:
  assumes "0 \<le> sel_x orig" "sel_x orig + sel_width orig \<le> imgW"
    "0 \<le> sel_y orig" "sel_y orig + sel_height orig \<le> imgH"
    "sel_width orig = 100" "sel_height orig = 100"
  shows "resizeBounds Hse orig (- 98) (- 98) imgW imgH = orig\<lparr>sel_width := 10, sel_height := 10\<rparr>"
  using assms by (simp add: resize_eval)

lemma inside_floor_fits:
  assumes "0 \<le> pos" "pos + extent \<le> limit" "minSize \<le> extent"
  shows "floor_fits far_pinned pos extent limit"
  using assms by (simp add: floor_fits_def)

text \<open>
  C7 (as implemented). A 100 x 100 selection lying inside the image, resized via the
  \<^verbatim>\<open>se\<close> handle with the gesture delta \<open>(-98, -98)\<close>, which requests 2 x 2, comes out with
  width 10 and height 10 and every other field, \<open>x\<close> and \<open>y\<close> of the \<^verbatim>\<open>nw\<close> corner
  included, as before the gesture. In general, for every handle and delta: when the
  requested width is below 10 and the rectangle of floor size at the pinned edge lies
  inside the image (as it does whenever the pre-gesture selection lies inside the image
  and is at least 10 wide), the result is 10 wide, with the pre-gesture right edge for the
  handles whose name includes \<^verbatim>\<open>w\<close> and the pre-gesture left edge for the others;
  likewise for the height, with the handles whose name includes \<^verbatim>\<open>n\<close>. The floor is
  applied before the clamp to the image bounds, which may cut the result below 10.
\<close>

theorem C7_resize_floor:
  "(0 \<le> sel_x orig \<and> 0 \<le> sel_y orig \<and>
    sel_x orig + sel_width orig \<le> imgW \<and> sel_y orig + sel_height orig \<le> imgH \<and>
    sel_width orig = 100 \<and> sel_height orig = 100 \<longrightarrow>
      resizeBounds Hse orig (- 98) (- 98) imgW imgH
        = orig\<lparr>sel_width := 10, sel_height := 10\<rparr>) \<and>
   (floor_fits (name_includes h CHR ''w'') (sel_x orig) (sel_width orig) imgW \<and>
    sel_width (apply_handle h deltaX deltaY orig) < minSize \<longrightarrow>
      sel_width (resizeBounds h orig deltaX deltaY imgW imgH) = minSize \<and>
      (if name_includes h CHR ''w''
       then sel_x (resizeBounds h orig deltaX deltaY imgW imgH) + minSize
              = sel_x orig + sel_width orig
       else sel_x (resizeBounds h orig deltaX deltaY imgW imgH) = sel_x orig)) \<and>
   (floor_fits (name_includes h CHR ''n'') (sel_y orig) (sel_height orig) imgH \<and>
    sel_height (apply_handle h deltaX deltaY orig) < minSize \<longrightarrow>
      sel_height (resizeBounds h orig deltaX deltaY imgW imgH) = minSize \<and>
      (if name_includes h CHR ''n''
       then sel_y (resizeBounds h orig deltaX deltaY imgW imgH) + minSize
              = sel_y orig + sel_height orig
       else sel_y (resizeBounds h orig deltaX deltaY imgW imgH) = sel_y orig)) \<and>
   (0 \<le> sel_x orig \<and> sel_x orig + sel_width orig \<le> imgW \<and> minSize \<le> sel_width orig \<longrightarrow>
      floor_fits (name_includes h CHR ''w'') (sel_x orig) (sel_width orig) imgW) \<and>
   (0 \<le> sel_y orig \<and> sel_y orig + sel_height orig \<le> imgH \<and> minSize \<le> sel_height orig \<longrightarrow>
      floor_fits (name_includes h CHR ''n'') (sel_y orig) (sel_height orig) imgH)"
  using resize_se_100 [of orig imgW imgH]
    resize_width_floor [of h orig imgW deltaX deltaY imgH]
    resize_height_floor [of h orig imgH deltaX deltaY imgW]
    inside_floor_fits [of "sel_x orig" "sel_width orig" imgW "name_includes h CHR ''w''"]
    inside_floor_fits [of "sel_y orig" "sel_height orig" imgH "name_includes h CHR ''n''"]
  by blast

text \<open>The 100 x 100 selection at \<open>(50, 60)\<close> in a 400 x 300 image: \<^verbatim>\<open>se\<close> with delta
  \<open>(-98, -98)\<close> gives 10 x 10 at \<open>(50, 60)\<close>; \<^verbatim>\<open>nw\<close> with delta \<open>(95, 97)\<close> gives 10 x 10
  at \<open>(140, 150)\<close>, the \<^verbatim>\<open>se\<close> corner staying at \<open>(150, 160)\<close>.\<close>

theorem C7_resize_floor_witness:
  "0 \<le> sel_x square100 \<and> 0 \<le> sel_y square100 \<and>
   sel_x square100 + sel_width square100 \<le> 400 \<and>
   sel_y square100 + sel_height square100 \<le> 300 \<and>
   sel_width square100 = 100 \<and> sel_height square100 = 100 \<and>
   minSize \<le> sel_width square100 \<and> minSize \<le> sel_height square100 \<and>
   floor_fits (name_includes Hnw CHR ''w'') (sel_x square100) (sel_width square100) 400 \<and>
   floor_fits (name_includes Hnw CHR ''n'') (sel_y square100) (sel_height square100) 300 \<and>
   sel_width (apply_handle Hnw 95 97 square100) < minSize \<and>
   sel_height (apply_handle Hnw 95 97 square100) < minSize \<and>
   resizeBounds Hse square100 (- 98) (- 98) 400 300
     = square100\<lparr>sel_width := 10, sel_height := 10\<rparr> \<and>
   sel_width (resizeBounds Hnw square100 95 97 400 300) = 10 \<and>
   sel_height (resizeBounds Hnw square100 95 97 400 300) = 10 \<and>
   sel_x (resizeBounds Hnw square100 95 97 400 300) = 140 \<and>
   sel_y (resizeBounds Hnw square100 95 97 400 300) = 150"
proof -
  have inside: "0 \<le> sel_x square100" "0 \<le> sel_y square100"
    "sel_x square100 + sel_width square100 \<le> 400"
    "sel_y square100 + sel_height square100 \<le> 300"
    "sel_width square100 = 100" "sel_height square100 = 100"
    "minSize \<le> sel_width square100" "minSize \<le> sel_height square100"
    by (simp_all add: square100_def minSize_def)
  have req: "sel_width (apply_handle Hnw 95 97 square100) < minSize"
    "sel_height (apply_handle Hnw 95 97 square100) < minSize"
    by (simp_all add: square100_def minSize_def)
  have names: "name_includes Hnw CHR ''w''" "name_includes Hnw CHR ''n''"
    by (simp_all add: name_includes_def)
  have pos: "sel_x square100 = 50" "sel_y square100 = 60" "minSize = 10"
    by (simp_all add: square100_def minSize_def)
  note t = C7_resize_floor [of square100 400 300 Hnw 95 97]
  from t inside have fits:
    "floor_fits (name_includes Hnw CHR ''w'') (sel_x square100) (sel_width square100) 400"
    "floor_fits (name_includes Hnw CHR ''n'') (sel_y square100) (sel_height square100) 300"
    by blast+
  from t inside have se: "resizeBounds Hse square100 (- 98) (- 98) 400 300
      = square100\<lparr>sel_width := 10, sel_height := 10\<rparr>"
    by blast
  from t fits req names have
    "sel_width (resizeBounds Hnw square100 95 97 400 300) = minSize \<and>
     sel_x (resizeBounds Hnw square100 95 97 400 300) + minSize
       = sel_x square100 + sel_width square100 \<and>
     sel_height (resizeBounds Hnw square100 95 97 400 300) = minSize \<and>
     sel_y (resizeBounds Hnw square100 95 97 400 300) + minSize
       = sel_y square100 + sel_height square100"
    by simp
  then have nw: "sel_width (resizeBounds Hnw square100 95 97 400 300) = 10"
    "sel_height (resizeBounds Hnw square100 95 97 400 300) = 10"
    "sel_x (resizeBounds Hnw square100 95 97 400 300) = 140"
    "sel_y (resizeBounds Hnw square100 95 97 400 300) = 150"
    using inside(5,6) pos by simp_all
  from inside fits req se nw show ?thesis by blast
qed

text \<open>
  C2 fails on the code. The store holds three selections, \<^verbatim>\<open>selection_3\<close> active, in a
  400 x 300 image. The pointer goes down on the \<^verbatim>\<open>se\<close> handle of \<^verbatim>\<open>selection_3\<close>
  (canvas point \<open>(350, 300)\<close>): the handler keeps a copy of the selection, its
  \<^verbatim>\<open>active: true\<close> included. The Tab key makes \<^verbatim>\<open>selection_1\<close> the active selection; one
  selection is active. The pointer moves to \<open>(360, 310)\<close>: \<^verbatim>\<open>resizeSelection\<close> passes the
  whole copy, resized, to \<^verbatim>\<open>updateSelection\<close>. In terms of store calls this is
  \<^verbatim>\<open>setActiveSelection('selection_1')\<close> followed by an \<^verbatim>\<open>updateSelection\<close> of
  \<^verbatim>\<open>selection_3\<close>. Afterwards \<^verbatim>\<open>selection_1\<close> and \<^verbatim>\<open>selection_3\<close> are both active.
\<close>

theorem C2_resize_after_switch_two_active:
  "handleMouseDown 350 300 new_EventHandler fit400 three = (resizing_third, three) \<and>
   switchToNextSelection False three = setActiveSelection ''selection_1'' three \<and>
   length (filter sel_active (getAllSelections (switchToNextSelection False three))) = 1 \<and>
   resizeSelection 360 310 resizing_third fit400 (switchToNextSelection False three)
     = run_ops [SetActive ''selection_1'',
                Update ''selection_3'' (all_fields (third\<lparr>sel_width := 50, sel_height := 50\<rparr>))]
         three \<and>
   map sel_active (getAllSelections
     (resizeSelection 360 310 resizing_third fit400 (switchToNextSelection False three)))
     = [True, False, True] \<and>
   length (filter sel_active (getAllSelections
     (resizeSelection 360 310 resizing_third fit400 (switchToNextSelection False three)))) = 2"
proof -
  have down: "handleMouseDown 350 300 new_EventHandler fit400 three = (resizing_third, three)"
    unfolding three_eval fit400_eval
    by (simp add: handleMouseDown_def hasImage_def new_EventHandler_def isPointInImage_def
        canvasToImage_def imageToCanvas_def getActiveSelection_def getResizeHandle_def
        handle_positions_def resizing_third_def third_def Let_def)
  have tab: "switchToNextSelection False three = setActiveSelection ''selection_1'' three"
    unfolding three_eval
    by (simp add: switchToNextSelection_def getAllSelections_def getActiveSelection_def Let_def)
  have one: "length (filter sel_active
      (getAllSelections (setActiveSelection ''selection_1'' three))) = 1"
    unfolding three_eval by (simp add: store_eval)
  have move: "resizeSelection 360 310 resizing_third fit400
       (setActiveSelection ''selection_1'' three)
     = run_ops [SetActive ''selection_1'',
                Update ''selection_3'' (all_fields (third\<lparr>sel_width := 50, sel_height := 50\<rparr>))]
         three"
    unfolding fit400_eval
    by (simp add: resizeSelection_def resizing_third_def third_def new_EventHandler_def
        canvasToImage_def resizeBounds_def clamp_to_image_def enforce_minSize_def
        name_includes_def minSize_def run_ops_def Let_def)
  have two: "map sel_active (getAllSelections
      (run_ops [SetActive ''selection_1'',
                Update ''selection_3'' (all_fields (third\<lparr>sel_width := 50, sel_height := 50\<rparr>))]
         three)) = [True, False, True]"
    unfolding three_eval by (simp add: all_fields_def third_def store_eval)
  have cnt: "length (filter sel_active (getAllSelections
      (run_ops [SetActive ''selection_1'',
                Update ''selection_3'' (all_fields (third\<lparr>sel_width := 50, sel_height := 50\<rparr>))]
         three))) = 2"
    unfolding three_eval by (simp add: all_fields_def third_def store_eval)
  show ?thesis
    unfolding tab move using down one two cnt by simp
qed

text \<open>The selection 8 wide at the right border of the 400 x 300 image, resized via its
  \<^verbatim>\<open>e\<close> handle by 3 units to the left: the requested width is 5, below the floor, and
  the selection stays 8 wide, because the floor of 10 is cut back to the image border.\<close>

theorem C7_narrow_counterexample:
  "getAllSelections narrow_store = [narrow] \<and>
   sel_x narrow + sel_width narrow = originalWidth fit400 \<and>
   sel_width (apply_handle He (- 3) 0 narrow) = 5 \<and>
   getAllSelections (resizeSelection 597 260 resizing_east fit400 narrow_store) = [narrow] \<and>
   sel_width narrow = 8"
  unfolding narrow_store_eval fit400_eval
  by (simp add: resizeSelection_def resizing_east_def new_EventHandler_def canvasToImage_def
      all_fields_def resizeBounds_def clamp_to_image_def enforce_minSize_def
      name_includes_def minSize_def narrow_def store_eval)

end
